theory Spec2Isabelle
  imports Complex_Main "HOL-Library.Log_Nat"
begin

section \<open>Numbers\<close>

text \<open>
  JavaScript numbers are modelled as exact reals: the structure of every expression of
  the source is kept (operands, order, constants), while the rounding of IEEE-754
  doubles, NaN and the infinities are not part of this model. A value that may be
  \<open>null\<close> or \<open>undefined\<close> in the source has an \<open>option\<close> type, \<open>None\<close> standing
  for both.

  One property below is an order bound on the result of \<open>smooth\<close> that holds for the
  exact value and is sensitive to rounding. For it the evaluation of \<open>smooth\<close> in
  double precision is modelled as well (section \<open>Binary64 arithmetic\<close>). Another one,
  the roll of a face with level eyes, depends on the sign of a zero; for it the roll is
  also modelled on numbers with a signed zero (section \<open>Math.atan2\<close>).
\<close>

subsection \<open>Vectors\<close>

text \<open>
  The objects \<open>{x, y, z}\<close> of the source. The fields are called \<open>vx\<close>, \<open>vy\<close>, \<open>vz\<close>
  here, so that \<open>x\<close>, \<open>y\<close>, \<open>z\<close> stay usable as variables.
\<close>

record vec3 =
  vx :: real
  vy :: real
  vz :: real

section \<open>utils.js\<close>

text \<open>
  \<^verbatim>\<open>smooth(current, previous, factor = 0.5)\<close>: the test on \<open>previous\<close> is the strict
  comparison with \<open>null\<close> and \<open>undefined\<close>, so the number 0 is a present value
  (\<open>Some 0\<close>). The factor is \<open>None\<close> when the caller leaves it out, which selects the
  default 0.5.
\<close>

definition smooth :: "real \<Rightarrow> real option \<Rightarrow> real option \<Rightarrow> real" where
  "smooth current previous factor =
     (let f = (case factor of None \<Rightarrow> 0.5 | Some g \<Rightarrow> g)
      in case previous of
           None \<Rightarrow> current
         | Some p \<Rightarrow> p * f + current * (1 - f))"

text \<open>
  \<^verbatim>\<open>smooth3D(current, previous, factor = 0.5)\<close>: \<open>!previous\<close> on an object or
  \<open>null\<close>; the fields of a present vector are numbers, handed to \<open>smooth\<close> as present.
\<close>

definition smooth3D :: "vec3 \<Rightarrow> vec3 option \<Rightarrow> real option \<Rightarrow> vec3" where
  "smooth3D current previous factor =
     (let f = (case factor of None \<Rightarrow> 0.5 | Some g \<Rightarrow> g)
      in case previous of
           None \<Rightarrow> current
         | Some p \<Rightarrow>
             \<lparr> vx = smooth (vx current) (Some (vx p)) (Some f),
               vy = smooth (vy current) (Some (vy p)) (Some f),
               vz = smooth (vz current) (Some (vz p)) (Some f) \<rparr>)"

text \<open>
  The operator \<^verbatim>\<open>a || d\<close> on a number \<open>a\<close>: \<open>d\<close> when \<open>a\<close> is falsy, which for a real
  number means 0.
\<close>

definition num_or :: "real \<Rightarrow> real \<Rightarrow> real" where
  "num_or a d = (if a = 0 then d else a)"

definition distance3D :: "vec3 \<Rightarrow> vec3 \<Rightarrow> real" where
  "distance3D p1 p2 =
     (let dx = vx p2 - vx p1;
          dy = vy p2 - vy p1;
          dz = num_or (vz p2) 0 - num_or (vz p1) 0
      in sqrt (dx * dx + dy * dy + dz * dz))"

section \<open>Binary64 arithmetic\<close>

text \<open>
  The finite doubles are the integer multiples of \<^verbatim>\<open>2^-1074\<close> with at most 53
  significant bits, below \<^verbatim>\<open>2^1024\<close> in magnitude. An arithmetic operation on
  doubles returns the exact result rounded to the nearest double, a tie going to the
  double with the even last bit.

  \<open>round_even\<close> is the nearest integer, ties to even. \<open>b64_round x\<close> scales \<open>\<bar>x\<bar>\<close> by
  \<^verbatim>\<open>2^1074\<close>, so that the doubles become integers; with \<open>k\<close> the number of bits of
  the integer part of the scaled value, the doubles around it are the multiples of
  \<^verbatim>\<open>q = 2^(k-53)\<close> (of 1 when \<open>k \<le> 53\<close>, the subnormal range), and the scaled
  value is rounded to the nearest of them. Results of magnitude \<^verbatim>\<open>2^1024\<close> and more,
  which are infinite in the source, are outside this model.
\<close>

definition round_even :: "real \<Rightarrow> int" where
  "round_even x =
     (let n = \<lfloor>x\<rfloor>; d = x - of_int n
      in if d < 1 / 2 then n else if 1 / 2 < d then n + 1 else if even n then n else n + 1)"

definition b64_round :: "real \<Rightarrow> real" where
  "b64_round x =
     (let X = \<bar>x\<bar> * 2 ^ 1074;
          q = 2 ^ nat (bitlen \<lfloor>X\<rfloor> - 53)
      in sgn x * of_int (round_even (X / of_int q) * q) / 2 ^ 1074)"

definition b64_add :: "real \<Rightarrow> real \<Rightarrow> real" where
  "b64_add a b = b64_round (a + b)"

definition b64_sub :: "real \<Rightarrow> real \<Rightarrow> real" where
  "b64_sub a b = b64_round (a - b)"

definition b64_mul :: "real \<Rightarrow> real \<Rightarrow> real" where
  "b64_mul a b = b64_round (a * b)"

text \<open>
  \<open>smooth\<close> on doubles: the expression \<^verbatim>\<open>previous * factor + current * (1 - factor)\<close>
  with each of its four operations rounded, in the order of evaluation.
\<close>

definition smooth_b64 :: "real \<Rightarrow> real option \<Rightarrow> real option \<Rightarrow> real" where
  "smooth_b64 current previous factor =
     (let f = (case factor of None \<Rightarrow> 0.5 | Some g \<Rightarrow> g)
      in case previous of
           None \<Rightarrow> current
         | Some p \<Rightarrow> b64_add (b64_mul p f) (b64_mul current (b64_sub 1 f)))"

section \<open>Math.atan2\<close>

text \<open>
  \<^verbatim>\<open>Math.atan2(y, x)\<close> of the language, on real arguments: the angle in \<open>(-\<pi>, \<pi>]\<close> of
  the point \<open>(x, y)\<close>, and 0 at the origin. The signed zeros of doubles, where
  \<^verbatim>\<open>atan2(0, -0)\<close> is \<open>\<pi>\<close>, have no counterpart on the reals; they are added below.
\<close>

definition atan2 :: "real \<Rightarrow> real \<Rightarrow> real" where
  "atan2 b a =
     (if 0 < a then arctan (b / a)
      else if a < 0 then (if 0 \<le> b then arctan (b / a) + pi else arctan (b / a) - pi)
      else if 0 < b then pi / 2
      else if b < 0 then - (pi / 2)
      else 0)"

subsection \<open>The sign of zero\<close>

text \<open>
  A double zero has a sign, and \<^verbatim>\<open>Math.atan2\<close> reads it: for a zero \<open>y\<close> the result
  is a zero of the sign of \<open>y\<close> when \<open>x\<close> is positive or \<open>+0\<close>, and \<open>\<pi>\<close> with the sign of
  \<open>y\<close> when \<open>x\<close> is negative or \<open>-0\<close>. For the one place where this decides a value, the
  roll of a face with level eyes, numbers with a signed zero are modelled: \<open>Number a\<close> is
  the number \<open>a\<close>, with \<open>Number 0\<close> for \<open>+0\<close>, and \<open>MinusZero\<close> is \<open>-0\<close>.
\<close>

datatype szn = MinusZero | Number real

fun num_val :: "szn \<Rightarrow> real" where
  "num_val MinusZero = 0"
| "num_val (Number a) = a"

text \<open>
  \<^verbatim>\<open>a - b\<close>: a difference that is not zero keeps its value (two different doubles
  never have a zero difference); a zero difference is \<open>+0\<close>, except \<open>(-0) - (+0)\<close>, which
  is \<open>-0\<close>.
\<close>

definition sz_sub :: "szn \<Rightarrow> szn \<Rightarrow> szn" where
  "sz_sub a b =
     (if num_val a - num_val b \<noteq> 0 then Number (num_val a - num_val b)
      else if a = MinusZero \<and> b = Number 0 then MinusZero
      else Number 0)"

text \<open>\<^verbatim>\<open>Math.atan2(y, x)\<close> with the cases of a zero \<open>y\<close> as the language defines them.\<close>

definition sz_atan2 :: "szn \<Rightarrow> szn \<Rightarrow> szn" where
  "sz_atan2 b a =
     (if num_val b \<noteq> 0 then Number (atan2 (num_val b) (num_val a))
      else if num_val a < 0 \<or> a = MinusZero
        then (if b = MinusZero then Number (- pi) else Number pi)
      else b)"

text \<open>A landmark whose coordinates carry the sign of zero, and a landmark without \<open>-0\<close>.\<close>

record svec3 =
  sx :: szn
  sy :: szn
  sz :: szn

definition plain :: "vec3 \<Rightarrow> svec3" where
  "plain p = \<lparr> sx = Number (vx p), sy = Number (vy p), sz = Number (vz p) \<rparr>"

text \<open>
  The roll of \<open>calculateHeadRotation\<close>,
  \<^verbatim>\<open>Math.atan2(rightEye.y - leftEye.y, rightEye.x - leftEye.x)\<close>, on such landmarks
  (left eye first).
\<close>

definition roll_signed :: "svec3 \<Rightarrow> svec3 \<Rightarrow> szn" where
  "roll_signed le re = sz_atan2 (sz_sub (sy re) (sy le)) (sz_sub (sx re) (sx le))"

section \<open>MediaPipeHandler\<close>

text \<open>The table \<^verbatim>\<open>this.landmarks\<close> of landmark indices, set once in the constructor.\<close>

record landmark_indices =
  noseTip :: nat
  foreheadTop :: nat
  chin :: nat
  leftEye :: nat
  rightEye :: nat
  leftEar :: nat
  rightEar :: nat
  leftTemple :: nat
  rightTemple :: nat

definition landmarks :: landmark_indices where
  "landmarks =
     \<lparr> noseTip = 1, foreheadTop = 10, chin = 152, leftEye = 33, rightEye = 263,
       leftEar = 234, rightEar = 454, leftTemple = 127, rightTemple = 356 \<rparr>"

text \<open>
  A landmark array is read by index only; \<^verbatim>\<open>landmarks[i]\<close> is \<open>undefined\<close> when the
  array has no element at \<open>i\<close> (too short, or a hole), so the array is a partial map
  from indices to points.
\<close>

type_synonym landmark_set = "nat \<Rightarrow> vec3 option"

text \<open>
  Reading a property of \<open>undefined\<close> throws a \<^verbatim>\<open>TypeError\<close>; it is the only
  exception the modelled functions raise.
\<close>

datatype error = TypeError

record head_rotation =
  pitch :: real
  yaw :: real
  roll :: real

record raw_pose =
  center :: vec3
  headTop :: vec3
  forehead :: vec3
  faceWidth :: real
  rotation :: head_rotation

text \<open>
  \<^verbatim>\<open>calculateHeadRotation(landmarks)\<close>. The five lookups never throw; the first
  property read of each point does, in the order left eye, right eye, nose tip, chin,
  forehead.
\<close>

definition calculateHeadRotation :: "landmark_set \<Rightarrow> error + head_rotation" where
  "calculateHeadRotation lms =
     (case lms (leftEye landmarks) of None \<Rightarrow> Inl TypeError | Some le \<Rightarrow>
     (case lms (rightEye landmarks) of None \<Rightarrow> Inl TypeError | Some re \<Rightarrow>
     (case lms (noseTip landmarks) of None \<Rightarrow> Inl TypeError | Some nt \<Rightarrow>
     (case lms (chin landmarks) of None \<Rightarrow> Inl TypeError | Some ch \<Rightarrow>
     (case lms (foreheadTop landmarks) of None \<Rightarrow> Inl TypeError | Some fh \<Rightarrow>
        (let eyeCenter_x = (vx le + vx re) / 2;
             eyeCenter_z = (vz le + vz re) / 2;
             yaw' = atan2 (vz nt - eyeCenter_z) (vx nt - eyeCenter_x) - pi / 2;
             faceVertical = vy ch - vy fh;
             faceDepth = vz nt - ((vz fh + vz ch) / 2);
             pitch' = atan2 faceDepth faceVertical;
             roll' = atan2 (vy re - vy le) (vx re - vx le)
         in Inr \<lparr> pitch = pitch', yaw = yaw', roll = roll' \<rparr>))))))"

text \<open>
  \<^verbatim>\<open>extractFaceData(landmarks)\<close>. Properties are first read of the eyes (face
  centre), then of forehead and chin (head top), then of the temples inside
  \<open>distance3D\<close> (\<open>p2\<close>, the right temple, first), then \<open>calculateHeadRotation\<close> runs.
\<close>

definition extractFaceData :: "landmark_set \<Rightarrow> error + raw_pose" where
  "extractFaceData lms =
     (case lms (leftEye landmarks) of None \<Rightarrow> Inl TypeError | Some le \<Rightarrow>
     (case lms (rightEye landmarks) of None \<Rightarrow> Inl TypeError | Some re \<Rightarrow>
     (case lms (foreheadTop landmarks) of None \<Rightarrow> Inl TypeError | Some fh \<Rightarrow>
     (case lms (chin landmarks) of None \<Rightarrow> Inl TypeError | Some ch \<Rightarrow>
     (case lms (rightTemple landmarks) of None \<Rightarrow> Inl TypeError | Some rt \<Rightarrow>
     (case lms (leftTemple landmarks) of None \<Rightarrow> Inl TypeError | Some lt \<Rightarrow>
        (let faceCenter = \<lparr> vx = (vx le + vx re) / 2,
                            vy = (vy le + vy re) / 2,
                            vz = (vz le + vz re) / 2 \<rparr>;
             headTop' = \<lparr> vx = vx fh,
                          vy = vy fh - (vy ch - vy fh) * 0.3,
                          vz = vz fh \<rparr>;
             faceWidth' = distance3D lt rt
         in (case calculateHeadRotation lms of
               Inl e \<Rightarrow> Inl e
             | Inr rotation' \<Rightarrow>
                 Inr \<lparr> center = faceCenter, headTop = headTop', forehead = fh,
                       faceWidth = faceWidth', rotation = rotation' \<rparr>))))))))"

text \<open>
  The object handed to \<^verbatim>\<open>onResults\<close>: \<^verbatim>\<open>{ detected: false }\<close>, or
  \<^verbatim>\<open>{ detected: true, ...faceData, rawLandmarks }\<close> (the raw landmarks are read by
  nobody and left out).
\<close>

datatype face_data = Undetected | Detected raw_pose

fun detected :: "face_data \<Rightarrow> bool" where
  "detected Undetected = False"
| "detected (Detected fd) = True"

text \<open>
  \<^verbatim>\<open>processResults(results)\<close>, with \<^verbatim>\<open>results.multiFaceLandmarks\<close> as argument
  (\<open>None\<close> for a missing list) and the callback \<^verbatim>\<open>this.onResults\<close> as a function
  on the state of its owner. \<open>Inl\<close> is an exception that leaves \<open>processResults\<close>
  before the callback is called: the function has no \<^verbatim>\<open>try\<close>.
\<close>

definition processResults ::
  "(face_data \<Rightarrow> 's \<Rightarrow> 's) \<Rightarrow> landmark_set list option \<Rightarrow> 's \<Rightarrow> error + 's" where
  "processResults onResults multiFaceLandmarks st =
     (case multiFaceLandmarks of
        None \<Rightarrow> Inr (onResults Undetected st)
      | Some [] \<Rightarrow> Inr (onResults Undetected st)
      | Some (lms # others) \<Rightarrow>
          (case extractFaceData lms of
             Inl e \<Rightarrow> Inl e
           | Inr faceData \<Rightarrow> Inr (onResults (Detected faceData) st)))"

section \<open>HatRenderer\<close>

record hat_settings =
  scale :: real
  yOffset :: real
  zOffset :: real
  smoothing :: real

text \<open>
  The part of the scene object \<^verbatim>\<open>this.hat\<close> that \<open>updateHatPosition\<close> writes:
  visibility, position, Euler rotation and scale.
\<close>

record hat_obj =
  hat_visible :: bool
  hat_position :: vec3
  hat_rotation :: vec3
  hat_scale :: vec3

record renderer =
  hat :: "hat_obj option"
  hatLoaded :: bool
  smoothedPosition :: "vec3 option"
  smoothedRotation :: "vec3 option"
  smoothedScale :: real
  settings :: hat_settings

text \<open>The constructor: no hat yet, the smoothed values and the settings at their start values.\<close>

definition new_HatRenderer :: renderer where
  "new_HatRenderer =
     \<lparr> hat = None, hatLoaded = False,
       smoothedPosition = None, smoothedRotation = None, smoothedScale = 1,
       settings = \<lparr> scale = 1.0, yOffset = 0, zOffset = 0, smoothing = 0.5 \<rparr> \<rparr>"

text \<open>
  \<^verbatim>\<open>createFallbackHat()\<close>: a new group (of the rendering library: visible, at the
  origin, unrotated, of scale 1) is hidden and becomes the hat.
\<close>

definition new_Group :: hat_obj where
  "new_Group =
     \<lparr> hat_visible = True,
       hat_position = \<lparr> vx = 0, vy = 0, vz = 0 \<rparr>,
       hat_rotation = \<lparr> vx = 0, vy = 0, vz = 0 \<rparr>,
       hat_scale = \<lparr> vx = 1, vy = 1, vz = 1 \<rparr> \<rparr>"

definition createFallbackHat :: "renderer \<Rightarrow> renderer" where
  "createFallbackHat r = r\<lparr> hat := Some (new_Group\<lparr> hat_visible := False \<rparr>), hatLoaded := True \<rparr>"

text \<open>
  \<^verbatim>\<open>updateSettings(newSettings)\<close> is \<^verbatim>\<open>Object.assign\<close>: the keys that
  \<open>newSettings\<close> has replace the old values.
\<close>

record new_settings =
  new_scale :: "real option"
  new_yOffset :: "real option"
  new_zOffset :: "real option"
  new_smoothing :: "real option"

definition updateSettings :: "renderer \<Rightarrow> new_settings \<Rightarrow> renderer" where
  "updateSettings r n =
     r\<lparr> settings :=
          \<lparr> scale = (case new_scale n of None \<Rightarrow> scale (settings r) | Some v \<Rightarrow> v),
            yOffset = (case new_yOffset n of None \<Rightarrow> yOffset (settings r) | Some v \<Rightarrow> v),
            zOffset = (case new_zOffset n of None \<Rightarrow> zOffset (settings r) | Some v \<Rightarrow> v),
            smoothing = (case new_smoothing n of None \<Rightarrow> smoothing (settings r) | Some v \<Rightarrow> v) \<rparr> \<rparr>"

text \<open>
  \<^verbatim>\<open>updateHatPosition(faceData)\<close>, the statements in the order of the source.
  \<^verbatim>\<open>position.set\<close>, \<^verbatim>\<open>rotation.set\<close> and \<^verbatim>\<open>scale.setScalar\<close> write the three
  components of the hat's vectors.
\<close>

definition updateHatPosition :: "renderer \<Rightarrow> face_data \<Rightarrow> renderer" where
  "updateHatPosition r faceData =
     (case hat r of
        None \<Rightarrow> r
      | Some h \<Rightarrow>
          if \<not> hatLoaded r then r
          else (case faceData of
             Undetected \<Rightarrow> r\<lparr> hat := Some (h\<lparr> hat_visible := False \<rparr>) \<rparr>
           | Detected fd \<Rightarrow>
               let h1 = h\<lparr> hat_visible := True \<rparr>;
                   smoothing' = smoothing (settings r);
                   sceneX = - (vx (forehead fd) - 0.5) * 2;
                   sceneY = - (vy (forehead fd) - 0.5) * 2;
                   targetPosition =
                     \<lparr> vx = sceneX,
                       vy = sceneY + yOffset (settings r) / 100,
                       vz = vz (forehead fd) * 2 + zOffset (settings r) / 100 \<rparr>;
                   sp = smooth3D targetPosition (smoothedPosition r) (Some smoothing');
                   h2 = h1\<lparr> hat_position := \<lparr> vx = vx sp, vy = vy sp, vz = vz sp \<rparr> \<rparr>;
                   targetRotation =
                     \<lparr> vx = pitch (rotation fd) * 0.5,
                       vy = - yaw (rotation fd) * 0.8,
                       vz = roll (rotation fd) \<rparr>;
                   sr = smooth3D targetRotation (smoothedRotation r) (Some smoothing');
                   h3 = h2\<lparr> hat_rotation := \<lparr> vx = vx sr, vy = vy sr, vz = vz sr \<rparr> \<rparr>;
                   baseScale = faceWidth fd * 3 * scale (settings r);
                   ss = smooth baseScale (Some (smoothedScale r)) (Some smoothing');
                   h4 = h3\<lparr> hat_scale := \<lparr> vx = ss, vy = ss, vz = ss \<rparr> \<rparr>
               in r\<lparr> hat := Some h4,
                     smoothedPosition := Some sp,
                     smoothedRotation := Some sr,
                     smoothedScale := ss \<rparr>))"

section \<open>HatTryOnApp\<close>

text \<open>
  The application keeps the last face data it was handed and the renderer;
  \<^verbatim>\<open>onFaceResults\<close> is the callback it gives to the \<open>MediaPipeHandler\<close>.
\<close>

record app =
  currentFaceData :: "face_data option"
  hatRenderer :: renderer

definition onFaceResults :: "face_data \<Rightarrow> app \<Rightarrow> app" where
  "onFaceResults faceData a = a\<lparr> currentFaceData := Some faceData \<rparr>"

section \<open>Test inputs\<close>

text \<open>
  The face of the specification's scenario A: eyes level at height 0.4, temples at 0.3
  and 0.7, forehead above and chin below the eye line, the nose in front.
\<close>

definition scenario_A :: landmark_set where
  "scenario_A =
     [leftEye landmarks \<mapsto> \<lparr> vx = 0.4, vy = 0.4, vz = 0 \<rparr>,
      rightEye landmarks \<mapsto> \<lparr> vx = 0.6, vy = 0.4, vz = 0 \<rparr>,
      leftTemple landmarks \<mapsto> \<lparr> vx = 0.3, vy = 0.4, vz = 0 \<rparr>,
      rightTemple landmarks \<mapsto> \<lparr> vx = 0.7, vy = 0.4, vz = 0 \<rparr>,
      foreheadTop landmarks \<mapsto> \<lparr> vx = 0.5, vy = 0.3, vz = 0 \<rparr>,
      chin landmarks \<mapsto> \<lparr> vx = 0.5, vy = 0.6, vz = 0 \<rparr>,
      noseTip landmarks \<mapsto> \<lparr> vx = 0.5, vy = 0.45, vz = 0.05 \<rparr>]"

definition pose_A :: raw_pose where
  "pose_A =
     \<lparr> center = \<lparr> vx = 0.5, vy = 0.4, vz = 0 \<rparr>,
       headTop = \<lparr> vx = 0.5, vy = 0.21, vz = 0 \<rparr>,
       forehead = \<lparr> vx = 0.5, vy = 0.3, vz = 0 \<rparr>,
       faceWidth = 0.4,
       rotation = \<lparr> pitch = arctan (1 / 6), yaw = 0, roll = 0 \<rparr> \<rparr>"

text \<open>Scenario B: the pose of scenario A with the face width doubled.\<close>

definition pose_B :: raw_pose where
  "pose_B = pose_A\<lparr> faceWidth := 0.8 \<rparr>"

text \<open>
  The same face turned upside down in the image plane (every point rotated by a half
  turn about the point (0.5, 0.45)): the eyes are level again, the right eye now at the
  smaller \<open>x\<close>.
\<close>

definition upside_down :: landmark_set where
  "upside_down =
     [leftEye landmarks \<mapsto> \<lparr> vx = 0.6, vy = 0.5, vz = 0 \<rparr>,
      rightEye landmarks \<mapsto> \<lparr> vx = 0.4, vy = 0.5, vz = 0 \<rparr>,
      leftTemple landmarks \<mapsto> \<lparr> vx = 0.7, vy = 0.5, vz = 0 \<rparr>,
      rightTemple landmarks \<mapsto> \<lparr> vx = 0.3, vy = 0.5, vz = 0 \<rparr>,
      foreheadTop landmarks \<mapsto> \<lparr> vx = 0.5, vy = 0.6, vz = 0 \<rparr>,
      chin landmarks \<mapsto> \<lparr> vx = 0.5, vy = 0.3, vz = 0 \<rparr>,
      noseTip landmarks \<mapsto> \<lparr> vx = 0.5, vy = 0.45, vz = 0.05 \<rparr>]"

text \<open>The application before any result has arrived, with the fallback hat in place.\<close>

definition app_0 :: app where
  "app_0 = \<lparr> currentFaceData = None, hatRenderer = createFallbackHat new_HatRenderer \<rparr>"

text \<open>The renderer after the fallback hat has tracked the face of scenario A for one frame.\<close>

definition tracked_A :: renderer where
  "tracked_A = updateHatPosition (createFallbackHat new_HatRenderer) (Detected pose_A)"

text \<open>
  Scenario A with the nose tip moved behind the eye line and towards smaller \<open>x\<close>, as
  for a head turned far away from the camera.
\<close>

definition turned_away :: landmark_set where
  "turned_away = scenario_A(noseTip landmarks \<mapsto> \<lparr> vx = 0.4, vy = 0.45, vz = - 0.1 \<rparr>)"

text \<open>
  The renderer \<open>tracked_A\<close> with every setting changed, and a pose that differs from
  scenario A in forehead, face width and all three angles.
\<close>

definition tracked_tuned :: renderer where
  "tracked_tuned =
     updateSettings tracked_A
       \<lparr> new_scale = Some 2, new_yOffset = Some 10, new_zOffset = Some 20,
         new_smoothing = Some 0.25 \<rparr>"

definition pose_C :: raw_pose where
  "pose_C =
     \<lparr> center = \<lparr> vx = 0.4, vy = 0.3, vz = 0.1 \<rparr>,
       headTop = \<lparr> vx = 0.4, vy = 0.11, vz = 0.1 \<rparr>,
       forehead = \<lparr> vx = 0.4, vy = 0.2, vz = 0.1 \<rparr>,
       faceWidth = 0.8,
       rotation = \<lparr> pitch = 1, yaw = 1, roll = 0.5 \<rparr> \<rparr>"

section \<open>The smoothing filter\<close>

lemma smooth_absent: "smooth c None f = c"
  by (simp add: smooth_def)

lemma smooth_present: "smooth c (Some p) (Some f) = p * f + c * (1 - f)"
  by (simp add: smooth_def)

lemma smooth_default: "smooth c (Some p) None = p * 0.5 + c * (1 - 0.5)"
  by (simp add: smooth_def)

lemma smooth3D_absent: "smooth3D c None f = c"
  by (simp add: smooth3D_def)

lemma smooth3D_present:
  "smooth3D c (Some p) (Some f) =
     \<lparr> vx = vx p * f + vx c * (1 - f),
       vy = vy p * f + vy c * (1 - f),
       vz = vz p * f + vz c * (1 - f) \<rparr>"
  by (simp add: smooth3D_def smooth_present)

text \<open>
  C3. The scalar smoother returns \<open>current\<close> when \<open>previous\<close> is absent and
  \<open>previous * factor + current * (1 - factor)\<close> otherwise, so a factor of 0 gives
  \<open>current\<close>; no factor is rejected or clamped (the formula is applied to every real
  factor, the ones outside [0,1] included); the vector smoother is the scalar one on
  each of the three axes.
\<close>

theorem smooth_contract:
  "smooth c None (Some f) = c
   \<and> smooth c (Some p) (Some f) = p * f + c * (1 - f)
   \<and> smooth c (Some p) (Some 0) = c
   \<and> smooth 1 (Some 3) (Some 2) = 5
   \<and> smooth 1 (Some 3) (Some (- 1)) = - 1
   \<and> vx (smooth3D cur prev (Some f)) = smooth (vx cur) (map_option vx prev) (Some f)
   \<and> vy (smooth3D cur prev (Some f)) = smooth (vy cur) (map_option vy prev) (Some f)
   \<and> vz (smooth3D cur prev (Some f)) = smooth (vz cur) (map_option vz prev) (Some f)"
  by (cases prev) (simp_all add: smooth_def smooth3D_def)

text \<open>
  C10. A previous value of exactly 0 is a present value: the blend formula applies and
  gives \<open>current * (1 - factor)\<close>; the snap is taken for an absent previous only.
\<close>

theorem smooth_previous_zero:
  "smooth c (Some 0) (Some f) = c * (1 - f) \<and> smooth c None (Some f) = c"
  by (simp add: smooth_def)

text \<open>
  C8 (in exact arithmetic). With \<open>previous\<close> present and a factor in [0,1], the exact
  value of \<open>previous * factor + current * (1 - factor)\<close> lies between \<open>previous\<close> and
  \<open>current\<close>, both included: it is a convex combination of the two.
\<close>

theorem smooth_between:
  assumes "0 \<le> f" "f \<le> 1"
  shows "min p c \<le> smooth c (Some p) (Some f) \<and> smooth c (Some p) (Some f) \<le> max p c"
proof -
  have eq: "smooth c (Some p) (Some f) = p * f + c * (1 - f)" by (simp add: smooth_def)
  have a: "min p c * f \<le> p * f" "min p c * (1 - f) \<le> c * (1 - f)"
    using assms by (simp_all add: mult_right_mono)
  have b: "p * f \<le> max p c * f" "c * (1 - f) \<le> max p c * (1 - f)"
    using assms by (simp_all add: mult_right_mono)
  have "min p c = min p c * f + min p c * (1 - f)" by (simp add: algebra_simps)
  moreover have "max p c = max p c * f + max p c * (1 - f)" by (simp add: algebra_simps)
  ultimately show ?thesis using a b eq by linarith
qed

theorem smooth_between_witness:
  "(0::real) \<le> 1 / 4 \<and> (1::real) / 4 \<le> 1 \<and> smooth 3 (Some 1) (Some (1 / 4)) = 5 / 2
   \<and> min 1 3 \<le> smooth 3 (Some 1) (Some (1 / 4)) \<and> smooth 3 (Some 1) (Some (1 / 4)) \<le> max 1 3"
  using smooth_between [of "1 / 4" 1 3] by (simp add: smooth_def)

subsection \<open>Evaluation in double precision\<close>

text \<open>Rounding moves a number by at most half the spacing of the doubles around it.\<close>

lemma round_even_error: "\<bar>of_int (round_even y) - y\<bar> \<le> 1 / 2"
proof -
  have "of_int \<lfloor>y\<rfloor> \<le> y" "y < of_int \<lfloor>y\<rfloor> + 1" by linarith+
  then show ?thesis
    by (auto simp: round_even_def Let_def)
qed

lemma b64_round_nearest:
  "\<bar>b64_round x - x\<bar> * 2 ^ 1074 \<le> 2 ^ nat (bitlen \<lfloor>\<bar>x\<bar> * 2 ^ 1074\<rfloor> - 53) / 2"
proof -
  define S :: real where "S = 2 ^ 1074"
  define X where "X = \<bar>x\<bar> * S"
  define q :: real where "q = 2 ^ nat (bitlen \<lfloor>X\<rfloor> - 53)"
  have Spos: "0 < S" by (simp add: S_def)
  have qpos: "0 < q" by (simp add: q_def)
  have r: "b64_round x = sgn x * (of_int (round_even (X / q)) * q) / S"
    unfolding b64_round_def Let_def q_def X_def S_def by simp
  have x: "x = sgn x * (X / q * q) / S"
    using Spos qpos by (simp add: X_def sgn_real_def)
  have "b64_round x - x = sgn x * ((of_int (round_even (X / q)) - X / q) * q) / S"
    by (subst x, subst r) (simp only: diff_divide_distrib right_diff_distrib left_diff_distrib)
  then have "\<bar>b64_round x - x\<bar> * S = \<bar>sgn x\<bar> * (\<bar>of_int (round_even (X / q)) - X / q\<bar> * q)"
    using qpos Spos by (simp add: abs_mult)
  also have "\<dots> \<le> 1 * (1 / 2 * q)"
    using round_even_error [of "X / q"] qpos
    by (intro mult_mono mult_right_mono) (simp_all add: sgn_real_def)
  finally show ?thesis
    unfolding q_def X_def S_def by simp
qed

text \<open>
  For a number whose scaled magnitude has \<open>m + 1\<close> bits, \<open>52 \<le> m\<close> (the normal range),
  the rounding is to a multiple of \<^verbatim>\<open>2^(m-52)\<close>; this evaluates \<open>b64_round\<close> at
  a given number.
\<close>

lemma bitlen_binade:
  assumes "2 ^ m \<le> n" "n < 2 ^ Suc m"
  shows "bitlen n = int m + 1"
proof -
  have "(0::int) < 2 ^ m" by simp
  with assms(1) have pos: "0 < n" by linarith
  from bitlen_bounds [OF pos]
  have lo: "2 ^ nat (bitlen n - 1) \<le> n" and hi: "n < 2 ^ nat (bitlen n)" by simp_all
  have "(2::int) ^ m < 2 ^ nat (bitlen n)" using assms(1) hi by linarith
  then have 1: "m < nat (bitlen n)" by (rule power_less_imp_less_exp [rotated]) simp
  have "(2::int) ^ nat (bitlen n - 1) < 2 ^ Suc m" using lo assms(2) by linarith
  then have 2: "nat (bitlen n - 1) < Suc m" by (rule power_less_imp_less_exp [rotated]) simp
  from 1 2 show ?thesis by linarith
qed

lemma b64_round_binade:
  assumes "2 ^ m \<le> \<bar>x\<bar> * 2 ^ 1074" "\<bar>x\<bar> * 2 ^ 1074 < 2 ^ Suc m" "52 \<le> m"
  shows "b64_round x =
           sgn x * of_int (round_even (\<bar>x\<bar> * 2 ^ 1074 / 2 ^ (m - 52)) * 2 ^ (m - 52)) / 2 ^ 1074"
proof -
  let ?X = "\<bar>x\<bar> * 2 ^ 1074"
  have "(2::real) ^ m = of_int (2 ^ m)" by simp
  then have "of_int (2 ^ m) \<le> ?X" using assms(1) by simp
  then have lo: "2 ^ m \<le> \<lfloor>?X\<rfloor>" by (simp only: le_floor_iff)
  have "real_of_int \<lfloor>?X\<rfloor> \<le> ?X" by simp
  also have "?X < of_int (2 ^ Suc m)" using assms(2) by simp
  finally have hi: "\<lfloor>?X\<rfloor> < 2 ^ Suc m" by (simp only: of_int_less_iff)
  have "bitlen \<lfloor>?X\<rfloor> = int m + 1" by (rule bitlen_binade [OF lo hi])
  then have "nat (bitlen \<lfloor>?X\<rfloor> - 53) = m - 52" using assms(3) by simp
  then show ?thesis by (simp add: b64_round_def Let_def)
qed

lemma b64_one_fifth: "b64_round (1 / 5) = 3602879701896397 / 2 ^ 54"
  by (subst b64_round_binade [where m = 1071]) (simp_all add: round_even_def)

lemma b64_step_sub: "b64_sub 1 (3602879701896397 / 2 ^ 54) = 7205759403792794 / 2 ^ 53"
  unfolding b64_sub_def
  by (subst b64_round_binade [where m = 1073]) (simp_all add: round_even_def)

lemma b64_step_mul1: "b64_mul 3 (3602879701896397 / 2 ^ 54) = 5404319552844596 / 2 ^ 53"
  unfolding b64_mul_def
  by (subst b64_round_binade [where m = 1073]) (simp_all add: round_even_def)

lemma b64_step_mul2: "b64_mul 3 (7205759403792794 / 2 ^ 53) = 5404319552844596 / 2 ^ 51"
  unfolding b64_mul_def
  by (subst b64_round_binade [where m = 1075]) (simp_all add: round_even_def)

lemma b64_step_add:
  "b64_add (5404319552844596 / 2 ^ 53) (5404319552844596 / 2 ^ 51) = 3 + 1 / 2 ^ 51"
  unfolding b64_add_def
  by (subst b64_round_binade [where m = 1075]) (simp_all add: round_even_def)

lemma b64_three: "b64_round 3 = 3"
  by (subst b64_round_binade [where m = 1075]) (simp_all add: round_even_def)

text \<open>
  The result of a rounding is a double: rounding it again changes nothing. With it, the
  two exact identities of the smoother (a factor of 0 returns \<open>current\<close>; a previous
  value of 0 leaves \<open>current * (1 - factor)\<close>) hold for the rounded evaluation too.
\<close>

lemma round_even_of_int: "round_even (of_int i) = i"
  by (simp add: round_even_def)

lemma b64_round_zero: "b64_round 0 = 0"
  by (simp add: b64_round_def)

lemma b64_round_one: "b64_round 1 = 1"
  by (subst b64_round_binade [where m = 1074]) (simp_all add: round_even_def)

lemma round_even_mono_bound:
  assumes "y < of_int N"
  shows "round_even y \<le> N"
proof -
  have "of_int (round_even y) \<le> y + 1 / 2"
    using round_even_error [of y] by linarith
  then have "real_of_int (round_even y) < of_int N + 1 / 2" using assms by linarith
  then have "real_of_int (round_even y) < of_int (N + 1)" by simp
  then have "round_even y < N + 1" by (simp only: of_int_less_iff)
  then show ?thesis by simp
qed

lemma round_even_lower:
  assumes "of_int N \<le> y"
  shows "N \<le> round_even y"
proof -
  have "N \<le> \<lfloor>y\<rfloor>" using assms by (simp add: le_floor_iff)
  moreover have "\<lfloor>y\<rfloor> \<le> round_even y" by (simp add: round_even_def Let_def)
  ultimately show ?thesis by simp
qed

lemma b64_round_idem: "b64_round (b64_round x) = b64_round x"
proof -
  define S :: real where "S = 2 ^ 1074"
  define X where "X = \<bar>x\<bar> * S"
  define k where "k = bitlen \<lfloor>X\<rfloor>"
  define j where "j = nat (k - 53)"
  define r where "r = round_even (X / 2 ^ j)"
  have Spos: "0 < S" by (simp add: S_def)
  have Xnn: "0 \<le> X" using Spos by (simp add: X_def)
  have R: "b64_round x = sgn x * of_int (r * 2 ^ j) / S"
    unfolding b64_round_def Let_def r_def j_def k_def X_def S_def by simp
  have rnn: "0 \<le> r"
    unfolding r_def using Xnn by (intro round_even_lower) simp
  show ?thesis
  proof (cases "r = 0")
    case True
    then show ?thesis by (simp add: R b64_round_zero)
  next
    case False
    then have rpos: "0 < r" using rnn by simp
    have xnz: "x \<noteq> 0"
    proof
      assume "x = 0"
      then have "r = 0" by (simp add: r_def X_def round_even_def)
      with False show False by simp
    qed
    \<comment> \<open>the rounded significand has at most 53 bits, or is \<open>2 ^ 53\<close>\<close>
    have Xlt: "X < 2 ^ nat k"
    proof -
      have "\<lfloor>X\<rfloor> < 2 ^ nat k"
      proof (cases "0 < \<lfloor>X\<rfloor>")
        case True
        then show ?thesis using bitlen_bounds [of "\<lfloor>X\<rfloor>"] by (simp add: k_def)
      next
        case False
        then have "\<lfloor>X\<rfloor> \<le> 0" by simp
        also have "(0::int) < 2 ^ nat k" by simp
        finally show ?thesis .
      qed
      then have "\<lfloor>X\<rfloor> + 1 \<le> 2 ^ nat k" by simp
      then have le: "real_of_int (\<lfloor>X\<rfloor> + 1) \<le> real_of_int (2 ^ nat k)"
        by (simp only: of_int_le_iff)
      have "X < real_of_int (\<lfloor>X\<rfloor> + 1)" by linarith
      then have "X < real_of_int (2 ^ nat k)" using le by (rule less_le_trans)
      then show ?thesis by simp
    qed
    have "X / 2 ^ j < 2 ^ 53"
    proof -
      have "nat k \<le> 53 + j" by (simp add: j_def)
      then have "(2::real) ^ nat k \<le> 2 ^ (53 + j)" by (intro power_increasing) simp_all
      with Xlt have "X < 2 ^ 53 * 2 ^ j" by (simp add: power_add)
      then show ?thesis by (simp add: pos_divide_less_eq)
    qed
    then have "X / 2 ^ j < real_of_int (2 ^ 53)" by simp
    then have rle: "r \<le> 2 ^ 53" unfolding r_def by (rule round_even_mono_bound)
    define j' where "j' = nat (bitlen (r * 2 ^ j) - 53)"
    have bl: "bitlen (r * 2 ^ j) = bitlen r + int j"
      using rpos by simp
    have dvd: "\<exists>i. r * 2 ^ j = i * 2 ^ j'"
    proof (cases "r = 2 ^ 53")
      case True
      have "(2::int) ^ 53 \<le> 2 ^ 53" "(2::int) ^ 53 < 2 ^ Suc 53" by simp_all
      then have "bitlen (2 ^ 53) = int 53 + 1" by (rule bitlen_binade)
      then have "j' = Suc j" by (simp add: j'_def bl True)
      then have "r * 2 ^ j = 2 ^ 52 * 2 ^ j'" by (simp add: True)
      then show ?thesis by blast
    next
      case False
      then have "r < 2 ^ 53" using rle by simp
      moreover have "2 ^ nat (bitlen r - 1) \<le> r" using bitlen_bounds [OF rpos] by simp
      ultimately have "(2::int) ^ nat (bitlen r - 1) < 2 ^ 53" by linarith
      then have "nat (bitlen r - 1) < 53" by (rule power_less_imp_less_exp [rotated]) simp
      then have "j' \<le> j" by (simp add: j'_def bl)
      then have "r * 2 ^ j = (r * 2 ^ (j - j')) * 2 ^ j'"
        by (simp add: power_add [symmetric])
      then show ?thesis by blast
    qed
    then obtain i where i: "r * 2 ^ j = i * 2 ^ j'" by blast
    have absR: "\<bar>b64_round x\<bar> * S = of_int (r * 2 ^ j)"
      using Spos rpos xnz by (simp add: R abs_mult sgn_real_def)
    have cpos: "0 < real_of_int (r * 2 ^ j) / S"
      using Spos rpos by simp
    have "b64_round x = sgn x * (real_of_int (r * 2 ^ j) / S)"
      by (simp add: R)
    then have "sgn (b64_round x) = sgn (sgn x) * sgn (real_of_int (r * 2 ^ j) / S)"
      by (simp only: sgn_mult)
    then have sgnR: "sgn (b64_round x) = sgn x"
      using cpos by (simp only: sgn_sgn sgn_pos mult_1_right)
    have "real_of_int r * 2 ^ j = real_of_int (r * 2 ^ j)" by simp
    then have fl: "\<lfloor>real_of_int r * 2 ^ j\<rfloor> = r * 2 ^ j" by (simp only: floor_of_int)
    have "b64_round (b64_round x) =
            sgn x * of_int (round_even (of_int (r * 2 ^ j) / of_int (2 ^ j')) * 2 ^ j') / S"
      unfolding b64_round_def [of "b64_round x"] Let_def absR [unfolded S_def] sgnR j'_def S_def
      by (simp add: fl)
    also have "of_int (r * 2 ^ j) / of_int (2 ^ j') = (of_int i :: real)"
      by (simp add: i)
    also have "round_even (of_int i) * 2 ^ j' = r * 2 ^ j"
      by (simp add: round_even_of_int i)
    finally show ?thesis by (simp add: R)
  qed
qed

lemma smooth_b64_factor_zero:
  assumes "b64_round c = c"
  shows "smooth_b64 c (Some p) (Some 0) = c"
  using assms
  by (simp add: smooth_b64_def b64_add_def b64_mul_def b64_sub_def b64_round_zero b64_round_one)

lemma smooth_b64_previous_zero:
  "smooth_b64 c (Some 0) (Some f) = b64_mul c (b64_sub 1 f)"
  by (simp add: smooth_b64_def b64_add_def b64_mul_def [of 0] b64_round_zero)
     (simp add: b64_mul_def b64_round_idem)

text \<open>
  C8 (as claimed, for the doubles the code computes with) fails: with \<open>previous\<close> and
  \<open>current\<close> both 3 and the factor the double 0.2, the smoother returns
  \<^verbatim>\<open>3 + 2^-51\<close> (3.0000000000000004), which is above both.
\<close>

theorem smooth_b64_counterexample:
  "b64_round 3 = 3 \<and> b64_round (b64_round (1 / 5)) = b64_round (1 / 5)
   \<and> 0 \<le> b64_round (1 / 5) \<and> b64_round (1 / 5) \<le> 1
   \<and> smooth_b64 3 (Some 3) (Some (b64_round (1 / 5))) = 3 + 1 / 2 ^ 51
   \<and> \<not> smooth_b64 3 (Some 3) (Some (b64_round (1 / 5))) \<le> max 3 3"
proof -
  have "smooth_b64 3 (Some 3) (Some (b64_round (1 / 5))) =
          b64_add (b64_mul 3 (3602879701896397 / 2 ^ 54))
            (b64_mul 3 (b64_sub 1 (3602879701896397 / 2 ^ 54)))"
    by (simp only: smooth_b64_def b64_one_fifth Let_def option.case)
  also have "\<dots> = b64_add (5404319552844596 / 2 ^ 53) (b64_mul 3 (7205759403792794 / 2 ^ 53))"
    by (simp only: b64_step_sub b64_step_mul1)
  also have "\<dots> = b64_add (5404319552844596 / 2 ^ 53) (5404319552844596 / 2 ^ 51)"
    by (simp only: b64_step_mul2)
  also have "\<dots> = 3 + 1 / 2 ^ 51"
    by (rule b64_step_add)
  finally have eq: "smooth_b64 3 (Some 3) (Some (b64_round (1 / 5))) = 3 + 1 / 2 ^ 51" .
  show ?thesis
    unfolding eq b64_round_idem b64_three by (simp add: b64_one_fifth)
qed

section \<open>Math.atan2 and distances\<close>

lemma atan2_bounds: "- pi < atan2 b a \<and> atan2 b a \<le> pi"
proof -
  have 1: "- (pi / 2) < arctan (b / a)" "arctan (b / a) < pi / 2"
    using arctan_bounded [of "b / a"] by simp_all
  have 2: "0 \<le> b \<Longrightarrow> a < 0 \<Longrightarrow> arctan (b / a) \<le> 0"
    by (simp add: divide_nonneg_neg arctan_le_zero_iff)
  have 3: "b < 0 \<Longrightarrow> a < 0 \<Longrightarrow> 0 < arctan (b / a)"
    by (simp add: divide_neg_neg zero_less_arctan_iff)
  show ?thesis
    using 1 2 3 pi_gt_zero unfolding atan2_def
    by (auto simp: not_less)
qed

text \<open>\<open>atan2 b a\<close> is the principal argument of the complex number \<open>a + b\<i>\<close>.\<close>

lemma cis_arctan_pos:
  assumes "0 < a"
  shows "cis (arctan (b / a)) = sgn (Complex a b)"
proof -
  define R where "R = sqrt (a\<^sup>2 + b\<^sup>2)"
  have r: "sqrt (1 + (b / a)\<^sup>2) = R / a"
  proof -
    have "1 + (b / a)\<^sup>2 = (a\<^sup>2 + b\<^sup>2) / a\<^sup>2"
      using assms by (simp add: field_simps power2_eq_square)
    then show ?thesis
      using assms by (simp add: real_sqrt_divide R_def)
  qed
  have c: "cos (arctan (b / a)) = a / R"
    by (simp add: cos_arctan r)
  have s: "sin (arctan (b / a)) = b / R"
    using assms by (simp add: sin_arctan r)
  have m: "cmod (Complex a b) = R"
    by (simp add: R_def cmod_def)
  have "sgn (Complex a b) = Complex a b / of_real R"
    by (simp only: sgn_eq m)
  also have "\<dots> = Complex (a / R) (b / R)"
    by (simp only: complex_eq_iff Re_divide_of_real Im_divide_of_real complex.sel)
  finally have sg: "sgn (Complex a b) = Complex (a / R) (b / R)" .
  show ?thesis
    unfolding sg by (simp add: complex_eq_iff c s)
qed

lemma atan2_Arg: "atan2 b a = Arg (Complex a b)"
proof (cases "a = 0 \<and> b = 0")
  case True
  then have "Complex a b = 0" by (simp add: Complex_eq_0)
  with True show ?thesis by (simp add: atan2_def Arg_zero)
next
  case False
  then have nz: "Complex a b \<noteq> 0" by (simp add: Complex_eq_0)
  have "sgn (Complex a b) = cis (atan2 b a)"
  proof -
    consider "0 < a" | "a < 0" "0 \<le> b" | "a < 0" "b < 0" | "a = 0" "0 < b" | "a = 0" "b < 0"
      using False by linarith
    then show ?thesis
    proof cases
      case 1
      then show ?thesis by (simp add: atan2_def cis_arctan_pos)
    next
      case 2
      have "cis (arctan (b / a) + pi) = - cis (arctan ((- b) / (- a)))"
        by (simp add: complex_eq_iff)
      also have "\<dots> = - sgn (Complex (- a) (- b))"
        using 2 by (simp only: cis_arctan_pos neg_0_less_iff_less)
      also have "\<dots> = sgn (Complex a b)"
        by (simp add: sgn_eq complex_eq_iff cmod_def)
      finally show ?thesis using 2 by (simp add: atan2_def)
    next
      case 3
      have "cis (arctan (b / a) - pi) = - cis (arctan ((- b) / (- a)))"
        by (simp add: complex_eq_iff)
      also have "\<dots> = - sgn (Complex (- a) (- b))"
        using 3 by (simp only: cis_arctan_pos neg_0_less_iff_less)
      also have "\<dots> = sgn (Complex a b)"
        by (simp add: sgn_eq complex_eq_iff cmod_def)
      finally show ?thesis using 3 by (simp add: atan2_def)
    next
      case 4
      then show ?thesis by (simp add: atan2_def sgn_eq complex_eq_iff cmod_def)
    next
      case 5
      then show ?thesis by (simp add: atan2_def sgn_eq complex_eq_iff cmod_def)
    qed
  qed
  moreover have "- pi < atan2 b a" "atan2 b a \<le> pi"
    using atan2_bounds [of b a] by simp_all
  ultimately show ?thesis
    by (intro cis_Arg_unique [symmetric]) simp_all
qed

lemma atan2_zero_nonneg: "0 \<le> a \<Longrightarrow> atan2 0 a = 0"
  by (simp add: atan2_def)

lemma atan2_zero_neg: "a < 0 \<Longrightarrow> atan2 0 a = pi"
  by (simp add: atan2_def)

lemma distance3D_commute: "distance3D p q = distance3D q p"
  by (simp add: distance3D_def Let_def power2_eq_square[symmetric] power2_commute)

lemma distance3D_euclid:
  "distance3D p q = sqrt ((vx q - vx p)\<^sup>2 + (vy q - vy p)\<^sup>2 + (vz q - vz p)\<^sup>2)"
  by (simp add: distance3D_def num_or_def Let_def power2_eq_square)

lemma sqrt_4_25: "sqrt (4 / 25) = 2 / 5"
  by (rule real_sqrt_unique) (simp_all add: power2_eq_square)

section \<open>The pose extractor\<close>

lemma calculateHeadRotation_present:
  assumes "lms (leftEye landmarks) = Some le" "lms (rightEye landmarks) = Some re"
    and "lms (noseTip landmarks) = Some nt" "lms (chin landmarks) = Some ch"
    and "lms (foreheadTop landmarks) = Some fh"
  shows "calculateHeadRotation lms =
           Inr \<lparr> pitch = atan2 (vz nt - (vz fh + vz ch) / 2) (vy ch - vy fh),
                 yaw = atan2 (vz nt - (vz le + vz re) / 2) (vx nt - (vx le + vx re) / 2) - pi / 2,
                 roll = atan2 (vy re - vy le) (vx re - vx le) \<rparr>"
  using assms by (simp add: calculateHeadRotation_def Let_def)

lemma extractFaceData_present:
  assumes "lms (leftEye landmarks) = Some le" "lms (rightEye landmarks) = Some re"
    and "lms (noseTip landmarks) = Some nt" "lms (chin landmarks) = Some ch"
    and "lms (foreheadTop landmarks) = Some fh"
    and "lms (leftTemple landmarks) = Some lt" "lms (rightTemple landmarks) = Some rt"
  shows "extractFaceData lms =
           Inr \<lparr> center = \<lparr> vx = (vx le + vx re) / 2, vy = (vy le + vy re) / 2,
                            vz = (vz le + vz re) / 2 \<rparr>,
                 headTop = \<lparr> vx = vx fh, vy = vy fh - (vy ch - vy fh) * 0.3, vz = vz fh \<rparr>,
                 forehead = fh,
                 faceWidth = distance3D lt rt,
                 rotation =
                   \<lparr> pitch = atan2 (vz nt - (vz fh + vz ch) / 2) (vy ch - vy fh),
                     yaw = atan2 (vz nt - (vz le + vz re) / 2) (vx nt - (vx le + vx re) / 2) - pi / 2,
                     roll = atan2 (vy re - vy le) (vx re - vx le) \<rparr> \<rparr>"
  using assms calculateHeadRotation_present [OF assms(1-5)]
  by (simp add: extractFaceData_def Let_def)

lemma calculateHeadRotation_missing:
  assumes "lms (leftEye landmarks) = None \<or> lms (rightEye landmarks) = None
         \<or> lms (noseTip landmarks) = None \<or> lms (chin landmarks) = None
         \<or> lms (foreheadTop landmarks) = None"
  shows "calculateHeadRotation lms = Inl TypeError"
  using assms by (auto simp: calculateHeadRotation_def split: option.splits)

lemma extractFaceData_missing:
  assumes "lms (noseTip landmarks) = None \<or> lms (foreheadTop landmarks) = None
         \<or> lms (chin landmarks) = None
         \<or> lms (leftEye landmarks) = None \<or> lms (rightEye landmarks) = None
         \<or> lms (leftTemple landmarks) = None \<or> lms (rightTemple landmarks) = None"
  shows "extractFaceData lms = Inl TypeError"
proof (cases "calculateHeadRotation lms")
  case (Inl e)
  then show ?thesis
    by (cases e) (simp add: extractFaceData_def Let_def split: option.splits)
next
  case (Inr rot)
  have "lms (noseTip landmarks) \<noteq> None"
  proof
    assume "lms (noseTip landmarks) = None"
    then have "calculateHeadRotation lms = Inl TypeError"
      by (intro calculateHeadRotation_missing) blast
    with Inr show False by simp
  qed
  with assms Inr show ?thesis
    by (auto simp: extractFaceData_def Let_def split: option.splits)
qed

lemma extractFaceData_fails_iff:
  "extractFaceData lms = Inl TypeError \<longleftrightarrow>
     lms (noseTip landmarks) = None \<or> lms (foreheadTop landmarks) = None
     \<or> lms (chin landmarks) = None
     \<or> lms (leftEye landmarks) = None \<or> lms (rightEye landmarks) = None
     \<or> lms (leftTemple landmarks) = None \<or> lms (rightTemple landmarks) = None"
proof
  assume f: "extractFaceData lms = Inl TypeError"
  show "lms (noseTip landmarks) = None \<or> lms (foreheadTop landmarks) = None
     \<or> lms (chin landmarks) = None
     \<or> lms (leftEye landmarks) = None \<or> lms (rightEye landmarks) = None
     \<or> lms (leftTemple landmarks) = None \<or> lms (rightTemple landmarks) = None"
  proof (rule ccontr)
    assume "\<not> ?thesis"
    then obtain nt fh ch le re lt rt where
      "lms (leftEye landmarks) = Some le" "lms (rightEye landmarks) = Some re"
      "lms (noseTip landmarks) = Some nt" "lms (chin landmarks) = Some ch"
      "lms (foreheadTop landmarks) = Some fh"
      "lms (leftTemple landmarks) = Some lt" "lms (rightTemple landmarks) = Some rt"
      by auto
    from extractFaceData_present [OF this] f show False by simp
  qed
qed (rule extractFaceData_missing)

lemma scenario_A_lookup:
  "scenario_A (leftEye landmarks) = Some \<lparr> vx = 0.4, vy = 0.4, vz = 0 \<rparr>"
  "scenario_A (rightEye landmarks) = Some \<lparr> vx = 0.6, vy = 0.4, vz = 0 \<rparr>"
  "scenario_A (noseTip landmarks) = Some \<lparr> vx = 0.5, vy = 0.45, vz = 0.05 \<rparr>"
  "scenario_A (chin landmarks) = Some \<lparr> vx = 0.5, vy = 0.6, vz = 0 \<rparr>"
  "scenario_A (foreheadTop landmarks) = Some \<lparr> vx = 0.5, vy = 0.3, vz = 0 \<rparr>"
  "scenario_A (leftTemple landmarks) = Some \<lparr> vx = 0.3, vy = 0.4, vz = 0 \<rparr>"
  "scenario_A (rightTemple landmarks) = Some \<lparr> vx = 0.7, vy = 0.4, vz = 0 \<rparr>"
  by (simp_all add: scenario_A_def landmarks_def)

lemma upside_down_lookup:
  "upside_down (leftEye landmarks) = Some \<lparr> vx = 0.6, vy = 0.5, vz = 0 \<rparr>"
  "upside_down (rightEye landmarks) = Some \<lparr> vx = 0.4, vy = 0.5, vz = 0 \<rparr>"
  "upside_down (noseTip landmarks) = Some \<lparr> vx = 0.5, vy = 0.45, vz = 0.05 \<rparr>"
  "upside_down (chin landmarks) = Some \<lparr> vx = 0.5, vy = 0.3, vz = 0 \<rparr>"
  "upside_down (foreheadTop landmarks) = Some \<lparr> vx = 0.5, vy = 0.6, vz = 0 \<rparr>"
  "upside_down (leftTemple landmarks) = Some \<lparr> vx = 0.7, vy = 0.5, vz = 0 \<rparr>"
  "upside_down (rightTemple landmarks) = Some \<lparr> vx = 0.3, vy = 0.5, vz = 0 \<rparr>"
  by (simp_all add: upside_down_def landmarks_def)

lemma turned_away_lookup:
  "turned_away (leftEye landmarks) = Some \<lparr> vx = 0.4, vy = 0.4, vz = 0 \<rparr>"
  "turned_away (rightEye landmarks) = Some \<lparr> vx = 0.6, vy = 0.4, vz = 0 \<rparr>"
  "turned_away (noseTip landmarks) = Some \<lparr> vx = 0.4, vy = 0.45, vz = - 0.1 \<rparr>"
  "turned_away (chin landmarks) = Some \<lparr> vx = 0.5, vy = 0.6, vz = 0 \<rparr>"
  "turned_away (foreheadTop landmarks) = Some \<lparr> vx = 0.5, vy = 0.3, vz = 0 \<rparr>"
  "turned_away (leftTemple landmarks) = Some \<lparr> vx = 0.3, vy = 0.4, vz = 0 \<rparr>"
  "turned_away (rightTemple landmarks) = Some \<lparr> vx = 0.7, vy = 0.4, vz = 0 \<rparr>"
  by (simp_all add: turned_away_def scenario_A_def landmarks_def)

lemma extract_scenario_A: "extractFaceData scenario_A = Inr pose_A"
  unfolding extractFaceData_present [OF scenario_A_lookup]
  by (simp add: pose_A_def distance3D_def num_or_def Let_def atan2_def sqrt_4_25)

text \<open>
  C5 (as the code has it). A landmark set that lacks one of the seven roles the
  extractor reads (nose tip, forehead top, chin, the two eyes, the two temples) makes
  \<open>extractFaceData\<close> throw a \<open>TypeError\<close>; \<open>processResults\<close> does not catch it, so the
  exception leaves \<open>processResults\<close> and the results callback is not called for that
  frame, neither with a detected nor with an undetected result.
\<close>

theorem missing_landmark_uncaught:
  assumes "lms (noseTip landmarks) = None \<or> lms (foreheadTop landmarks) = None
         \<or> lms (chin landmarks) = None
         \<or> lms (leftEye landmarks) = None \<or> lms (rightEye landmarks) = None
         \<or> lms (leftTemple landmarks) = None \<or> lms (rightTemple landmarks) = None"
  shows "extractFaceData lms = Inl TypeError
       \<and> processResults onResults (Some (lms # others)) st = Inl TypeError"
  using extractFaceData_missing [OF assms] by (simp add: processResults_def)

theorem missing_landmark_uncaught_witness:
  "(scenario_A(noseTip landmarks := None)) (noseTip landmarks) = None
   \<and> extractFaceData (scenario_A(noseTip landmarks := None)) = Inl TypeError
   \<and> processResults onFaceResults (Some [scenario_A(noseTip landmarks := None)]) app_0
       = Inl TypeError"
  using missing_landmark_uncaught [of "scenario_A(noseTip landmarks := None)" onFaceResults "[]" app_0]
  by simp

text \<open>
  C5 (as claimed) fails: for scenario A without its nose tip, \<open>processResults\<close> does not
  hand the undetected result to the application's callback.
\<close>

theorem missing_landmark_counterexample:
  "processResults onFaceResults (Some [scenario_A(noseTip landmarks := None)]) app_0
     \<noteq> Inr (onFaceResults Undetected app_0)"
  by (simp add: processResults_def extractFaceData_missing)

text \<open>
  C6. When the required roles are present, the extracted rotation is
  \<open>yaw = atan2 (noseTip.z - eyeCenter.z) (noseTip.x - eyeCenter.x) - \<pi>/2\<close> with the
  eye centre the midpoint of the eyes in \<open>x\<close> and \<open>z\<close>,
  \<open>pitch = atan2 (noseTip.z - (forehead.z + chin.z)/2) (chin.y - forehead.y)\<close> and
  \<open>roll = atan2 (rightEye.y - leftEye.y) (rightEye.x - leftEye.x)\<close>, as
  \<open>calculateHeadRotation\<close> returns it; the yaw is the shifted value of \<open>atan2\<close>, in
  \<open>(-3\<pi>/2, \<pi>/2]\<close>, and is not wrapped back.
\<close>

theorem extracted_rotation:
  assumes "lms (leftEye landmarks) = Some le" "lms (rightEye landmarks) = Some re"
    and "lms (noseTip landmarks) = Some nt" "lms (chin landmarks) = Some ch"
    and "lms (foreheadTop landmarks) = Some fh"
    and "lms (leftTemple landmarks) = Some lt" "lms (rightTemple landmarks) = Some rt"
  shows "map_sum id rotation (extractFaceData lms) =
           Inr \<lparr> pitch = atan2 (vz nt - (vz fh + vz ch) / 2) (vy ch - vy fh),
                 yaw = atan2 (vz nt - (vz le + vz re) / 2) (vx nt - (vx le + vx re) / 2) - pi / 2,
                 roll = atan2 (vy re - vy le) (vx re - vx le) \<rparr>
       \<and> map_sum id rotation (extractFaceData lms) = calculateHeadRotation lms
       \<and> - (3 * pi / 2) < atan2 (vz nt - (vz le + vz re) / 2) (vx nt - (vx le + vx re) / 2) - pi / 2
       \<and> atan2 (vz nt - (vz le + vz re) / 2) (vx nt - (vx le + vx re) / 2) - pi / 2 \<le> pi / 2"
proof -
  note b = atan2_bounds [of "vz nt - (vz le + vz re) / 2" "vx nt - (vx le + vx re) / 2"]
  show ?thesis
    using b by (simp add: extractFaceData_present [OF assms] calculateHeadRotation_present [OF assms(1-5)])
qed

theorem extracted_rotation_witness:
  "map_sum id rotation (extractFaceData scenario_A) =
     Inr \<lparr> pitch = arctan (1 / 6), yaw = 0, roll = 0 \<rparr>
   \<and> map_sum id rotation (extractFaceData turned_away) =
     Inr \<lparr> pitch = arctan (- (1 / 3)), yaw = - (5 * pi / 4), roll = 0 \<rparr>"
  using extracted_rotation [OF scenario_A_lookup] extracted_rotation [OF turned_away_lookup]
  by (simp add: atan2_def arctan_one)

subsection \<open>The roll of level eyes\<close>

text \<open>On landmarks without \<open>-0\<close> the signed roll has the value that the extractor's roll has.\<close>

lemma sz_sub_plain: "sz_sub (Number a) (Number b) = Number (a - b)"
  by (simp add: sz_sub_def)

lemma sz_atan2_plain: "num_val (sz_atan2 (Number b) (Number a)) = atan2 b a"
  by (simp add: sz_atan2_def atan2_def)

lemma roll_signed_plain:
  "num_val (roll_signed (plain p) (plain q)) = atan2 (vy q - vy p) (vx q - vx p)"
  by (simp add: roll_signed_def plain_def sz_sub_plain sz_atan2_plain)

lemma sz_sub_level:
  assumes "num_val a = num_val b"
  shows "sz_sub b a = (if b = MinusZero \<and> a = Number 0 then MinusZero else Number 0)"
  using assms by (simp add: sz_sub_def)

lemma sz_sub_sign:
  "num_val (sz_sub b a) = num_val b - num_val a"
  "sz_sub b a = MinusZero \<longleftrightarrow> b = MinusZero \<and> a = Number 0"
  by (auto simp: sz_sub_def)

text \<open>
  C7 (as the code has it). When the two eye landmarks have equal \<open>y\<close> (\<open>+0\<close> and \<open>-0\<close>
  being equal), the extracted roll is a zero if \<open>rightEye.x - leftEye.x\<close> is positive or
  \<open>+0\<close>, and \<open>\<pi>\<close> in magnitude if that difference is negative or \<open>-0\<close> (it is \<open>-0\<close> only
  for \<open>rightEye.x = -0\<close> and \<open>leftEye.x = +0\<close>). The sign is the one of
  \<open>rightEye.y - leftEye.y\<close>: the roll is \<open>-0\<close> or \<open>-\<pi>\<close> exactly when \<open>rightEye.y\<close> is \<open>-0\<close>
  and \<open>leftEye.y\<close> is \<open>+0\<close>, and \<open>+0\<close> or \<open>\<pi>\<close> otherwise. For a landmark set without
  \<open>-0\<close> this is the roll that \<open>extractFaceData\<close> returns.
\<close>

theorem level_eyes_roll:
  assumes "num_val (sy le) = num_val (sy re)"
  shows "((num_val (sx le) < num_val (sx re)
           \<or> (num_val (sx le) = num_val (sx re) \<and> \<not> (sx re = MinusZero \<and> sx le = Number 0)))
          \<longrightarrow> roll_signed le re =
                (if sy re = MinusZero \<and> sy le = Number 0 then MinusZero else Number 0))
       \<and> ((num_val (sx re) < num_val (sx le) \<or> (sx re = MinusZero \<and> sx le = Number 0))
          \<longrightarrow> roll_signed le re =
                (if sy re = MinusZero \<and> sy le = Number 0 then Number (- pi) else Number pi))
       \<and> (lms (leftEye landmarks) = Some p \<and> lms (rightEye landmarks) = Some q
            \<and> lms (noseTip landmarks) \<noteq> None \<and> lms (chin landmarks) \<noteq> None
            \<and> lms (foreheadTop landmarks) \<noteq> None
            \<and> lms (leftTemple landmarks) \<noteq> None \<and> lms (rightTemple landmarks) \<noteq> None
          \<longrightarrow> map_sum id (roll \<circ> rotation) (extractFaceData lms) =
                Inr (num_val (roll_signed (plain p) (plain q))))"
proof -
  have dy: "sz_sub (sy re) (sy le) =
              (if sy re = MinusZero \<and> sy le = Number 0 then MinusZero else Number 0)"
    using assms by (simp add: sz_sub_level)
  have a: "roll_signed le re =
             (if sy re = MinusZero \<and> sy le = Number 0 then MinusZero else Number 0)"
    if "num_val (sx le) < num_val (sx re)
        \<or> (num_val (sx le) = num_val (sx re) \<and> \<not> (sx re = MinusZero \<and> sx le = Number 0))"
    using that unfolding roll_signed_def dy
    by (auto simp: sz_atan2_def sz_sub_sign)
  have b: "roll_signed le re =
             (if sy re = MinusZero \<and> sy le = Number 0 then Number (- pi) else Number pi)"
    if "num_val (sx re) < num_val (sx le) \<or> (sx re = MinusZero \<and> sx le = Number 0)"
    using that unfolding roll_signed_def dy
    by (auto simp: sz_atan2_def sz_sub_sign)
  have c: "map_sum id (roll \<circ> rotation) (extractFaceData lms) =
             Inr (num_val (roll_signed (plain p) (plain q)))"
    if "lms (leftEye landmarks) = Some p \<and> lms (rightEye landmarks) = Some q
            \<and> lms (noseTip landmarks) \<noteq> None \<and> lms (chin landmarks) \<noteq> None
            \<and> lms (foreheadTop landmarks) \<noteq> None
            \<and> lms (leftTemple landmarks) \<noteq> None \<and> lms (rightTemple landmarks) \<noteq> None"
  proof -
    from that obtain nt ch fh lt rt where r:
      "lms (leftEye landmarks) = Some p" "lms (rightEye landmarks) = Some q"
      "lms (noseTip landmarks) = Some nt" "lms (chin landmarks) = Some ch"
      "lms (foreheadTop landmarks) = Some fh"
      "lms (leftTemple landmarks) = Some lt" "lms (rightTemple landmarks) = Some rt"
      by auto
    show ?thesis
      by (simp add: extractFaceData_present [OF r] roll_signed_plain)
  qed
  from a b c show ?thesis by blast
qed

theorem level_eyes_roll_witness:
  "roll_signed (plain \<lparr> vx = 0.4, vy = 0.4, vz = 0 \<rparr>) (plain \<lparr> vx = 0.6, vy = 0.4, vz = 0 \<rparr>)
     = Number 0
   \<and> roll_signed (plain \<lparr> vx = 0.6, vy = 0.5, vz = 0 \<rparr>) (plain \<lparr> vx = 0.4, vy = 0.5, vz = 0 \<rparr>)
     = Number pi
   \<and> roll_signed \<lparr> sx = Number 0.6, sy = Number 0, sz = Number 0 \<rparr>
                  \<lparr> sx = Number 0.4, sy = MinusZero, sz = Number 0 \<rparr>
     = Number (- pi)
   \<and> roll_signed \<lparr> sx = Number 0, sy = Number 0.4, sz = Number 0 \<rparr>
                  \<lparr> sx = MinusZero, sy = Number 0.4, sz = Number 0 \<rparr>
     = Number pi
   \<and> roll_signed \<lparr> sx = Number 0.4, sy = Number 0, sz = Number 0 \<rparr>
                  \<lparr> sx = Number 0.6, sy = MinusZero, sz = Number 0 \<rparr>
     = MinusZero
   \<and> map_sum id (roll \<circ> rotation) (extractFaceData scenario_A) = Inr 0
   \<and> map_sum id (roll \<circ> rotation) (extractFaceData upside_down) = Inr pi"
proof -
  note t = level_eyes_roll
  have 1: "roll_signed (plain \<lparr> vx = 0.4, vy = 0.4, vz = 0 \<rparr>) (plain \<lparr> vx = 0.6, vy = 0.4, vz = 0 \<rparr>)
     = Number 0"
    using t [of "plain \<lparr> vx = 0.4, vy = 0.4, vz = 0 \<rparr>" "plain \<lparr> vx = 0.6, vy = 0.4, vz = 0 \<rparr>"]
    by (simp add: plain_def)
  have 2: "roll_signed (plain \<lparr> vx = 0.6, vy = 0.5, vz = 0 \<rparr>) (plain \<lparr> vx = 0.4, vy = 0.5, vz = 0 \<rparr>)
     = Number pi"
    using t [of "plain \<lparr> vx = 0.6, vy = 0.5, vz = 0 \<rparr>" "plain \<lparr> vx = 0.4, vy = 0.5, vz = 0 \<rparr>"]
    by (simp add: plain_def)
  have 3: "roll_signed \<lparr> sx = Number 0.6, sy = Number 0, sz = Number 0 \<rparr>
                  \<lparr> sx = Number 0.4, sy = MinusZero, sz = Number 0 \<rparr>
     = Number (- pi)"
    using t [of "\<lparr> sx = Number 0.6, sy = Number 0, sz = Number 0 \<rparr>"
                "\<lparr> sx = Number 0.4, sy = MinusZero, sz = Number 0 \<rparr>"]
    by simp
  have 4: "roll_signed \<lparr> sx = Number 0, sy = Number 0.4, sz = Number 0 \<rparr>
                  \<lparr> sx = MinusZero, sy = Number 0.4, sz = Number 0 \<rparr>
     = Number pi"
    using t [of "\<lparr> sx = Number 0, sy = Number 0.4, sz = Number 0 \<rparr>"
                "\<lparr> sx = MinusZero, sy = Number 0.4, sz = Number 0 \<rparr>"]
    by simp
  have 5: "roll_signed \<lparr> sx = Number 0.4, sy = Number 0, sz = Number 0 \<rparr>
                  \<lparr> sx = Number 0.6, sy = MinusZero, sz = Number 0 \<rparr>
     = MinusZero"
    using t [of "\<lparr> sx = Number 0.4, sy = Number 0, sz = Number 0 \<rparr>"
                "\<lparr> sx = Number 0.6, sy = MinusZero, sz = Number 0 \<rparr>"]
    by simp
  have 6: "map_sum id (roll \<circ> rotation) (extractFaceData scenario_A) = Inr 0"
    using t [of "plain \<lparr> vx = 0.4, vy = 0.4, vz = 0 \<rparr>" "plain \<lparr> vx = 0.6, vy = 0.4, vz = 0 \<rparr>"
                scenario_A "\<lparr> vx = 0.4, vy = 0.4, vz = 0 \<rparr>" "\<lparr> vx = 0.6, vy = 0.4, vz = 0 \<rparr>"]
    by (simp add: scenario_A_lookup plain_def)
  have 7: "map_sum id (roll \<circ> rotation) (extractFaceData upside_down) = Inr pi"
    using t [of "plain \<lparr> vx = 0.6, vy = 0.5, vz = 0 \<rparr>" "plain \<lparr> vx = 0.4, vy = 0.5, vz = 0 \<rparr>"
                upside_down "\<lparr> vx = 0.6, vy = 0.5, vz = 0 \<rparr>" "\<lparr> vx = 0.4, vy = 0.5, vz = 0 \<rparr>"]
    by (simp add: upside_down_lookup plain_def)
  from 1 2 3 4 5 6 7 show ?thesis by blast
qed

text \<open>
  C7 (as claimed) fails: the upside-down face has level eyes and the roll \<open>\<pi>\<close>.
\<close>

theorem level_eyes_roll_counterexample:
  "map_option vy (upside_down (leftEye landmarks)) = map_option vy (upside_down (rightEye landmarks))
   \<and> map_sum id (roll \<circ> rotation) (extractFaceData upside_down) = Inr pi
   \<and> map_sum id (roll \<circ> rotation) (extractFaceData upside_down) \<noteq> Inr 0"
  by (simp add: extractFaceData_present [OF upside_down_lookup] upside_down_lookup atan2_def)

text \<open>
  C9. For a landmark set with both temples, the extracted face width (extraction
  succeeds when the other five roles are present too) is the Euclidean distance of the
  two temple points in three dimensions, and exchanging the two temple landmarks does
  not change what the extraction gives for the face width.
\<close>

theorem face_width_distance:
  assumes "lms (leftTemple landmarks) = Some lt" "lms (rightTemple landmarks) = Some rt"
  shows "(lms (leftEye landmarks) \<noteq> None \<and> lms (rightEye landmarks) \<noteq> None
          \<and> lms (noseTip landmarks) \<noteq> None \<and> lms (chin landmarks) \<noteq> None
          \<and> lms (foreheadTop landmarks) \<noteq> None
          \<longrightarrow> map_sum id faceWidth (extractFaceData lms) =
                Inr (sqrt ((vx rt - vx lt)\<^sup>2 + (vy rt - vy lt)\<^sup>2 + (vz rt - vz lt)\<^sup>2)))
       \<and> map_sum id faceWidth
           (extractFaceData (lms(leftTemple landmarks := lms (rightTemple landmarks),
                                 rightTemple landmarks := lms (leftTemple landmarks))))
         = map_sum id faceWidth (extractFaceData lms)"
proof (cases "lms (leftEye landmarks) \<noteq> None \<and> lms (rightEye landmarks) \<noteq> None
          \<and> lms (noseTip landmarks) \<noteq> None \<and> lms (chin landmarks) \<noteq> None
          \<and> lms (foreheadTop landmarks) \<noteq> None")
  case True
  then obtain le re nt ch fh where p:
    "lms (leftEye landmarks) = Some le" "lms (rightEye landmarks) = Some re"
    "lms (noseTip landmarks) = Some nt" "lms (chin landmarks) = Some ch"
    "lms (foreheadTop landmarks) = Some fh"
    by auto
  let ?sw = "lms(leftTemple landmarks := lms (rightTemple landmarks),
                 rightTemple landmarks := lms (leftTemple landmarks))"
  have q: "?sw (leftEye landmarks) = Some le" "?sw (rightEye landmarks) = Some re"
    "?sw (noseTip landmarks) = Some nt" "?sw (chin landmarks) = Some ch"
    "?sw (foreheadTop landmarks) = Some fh"
    "?sw (leftTemple landmarks) = Some rt" "?sw (rightTemple landmarks) = Some lt"
    using p assms by (simp_all add: landmarks_def)
  show ?thesis
    by (simp add: extractFaceData_present [OF p assms] extractFaceData_present [OF q]
        distance3D_euclid power2_commute)
next
  case False
  let ?sw = "lms(leftTemple landmarks := lms (rightTemple landmarks),
                 rightTemple landmarks := lms (leftTemple landmarks))"
  from False have m: "lms (noseTip landmarks) = None \<or> lms (foreheadTop landmarks) = None
         \<or> lms (chin landmarks) = None
         \<or> lms (leftEye landmarks) = None \<or> lms (rightEye landmarks) = None
         \<or> lms (leftTemple landmarks) = None \<or> lms (rightTemple landmarks) = None"
    by blast
  from False have "?sw (noseTip landmarks) = None \<or> ?sw (foreheadTop landmarks) = None
         \<or> ?sw (chin landmarks) = None
         \<or> ?sw (leftEye landmarks) = None \<or> ?sw (rightEye landmarks) = None
         \<or> ?sw (leftTemple landmarks) = None \<or> ?sw (rightTemple landmarks) = None"
    by (auto simp: landmarks_def)
  then have "extractFaceData ?sw = Inl TypeError"
    by (rule extractFaceData_missing)
  with extractFaceData_missing [OF m] False show ?thesis
    by simp
qed

theorem face_width_distance_witness:
  "map_sum id faceWidth (extractFaceData scenario_A) = Inr 0.4
   \<and> map_sum id faceWidth
       (extractFaceData (scenario_A(leftTemple landmarks := scenario_A (rightTemple landmarks),
                                    rightTemple landmarks := scenario_A (leftTemple landmarks))))
     = Inr 0.4"
  using face_width_distance [OF scenario_A_lookup(6,7)]
  by (simp add: scenario_A_lookup power2_eq_square sqrt_4_25)

section \<open>The transform mapper\<close>

lemma update_without_hat:
  "hat r = None \<or> \<not> hatLoaded r \<Longrightarrow> updateHatPosition r faceData = r"
  by (auto simp: updateHatPosition_def split: option.splits)

lemma update_on_Undetected:
  "hat r = Some h \<Longrightarrow> hatLoaded r \<Longrightarrow>
   updateHatPosition r Undetected = r\<lparr> hat := Some (h\<lparr> hat_visible := False \<rparr>) \<rparr>"
  by (simp add: updateHatPosition_def)

lemma update_on_Detected:
  assumes "hat r = Some h" "hatLoaded r"
  shows "updateHatPosition r (Detected p) =
     r\<lparr> hat := Some
           \<lparr> hat_visible = True,
             hat_position =
               smooth3D \<lparr> vx = - (vx (forehead p) - 0.5) * 2,
                          vy = - (vy (forehead p) - 0.5) * 2 + yOffset (settings r) / 100,
                          vz = vz (forehead p) * 2 + zOffset (settings r) / 100 \<rparr>
                 (smoothedPosition r) (Some (smoothing (settings r))),
             hat_rotation =
               smooth3D \<lparr> vx = pitch (rotation p) * 0.5,
                          vy = - yaw (rotation p) * 0.8,
                          vz = roll (rotation p) \<rparr>
                 (smoothedRotation r) (Some (smoothing (settings r))),
             hat_scale =
               \<lparr> vx = smooth (faceWidth p * 3 * scale (settings r)) (Some (smoothedScale r))
                        (Some (smoothing (settings r))),
                 vy = smooth (faceWidth p * 3 * scale (settings r)) (Some (smoothedScale r))
                        (Some (smoothing (settings r))),
                 vz = smooth (faceWidth p * 3 * scale (settings r)) (Some (smoothedScale r))
                        (Some (smoothing (settings r))) \<rparr> \<rparr>,
         smoothedPosition := Some
           (smooth3D \<lparr> vx = - (vx (forehead p) - 0.5) * 2,
                       vy = - (vy (forehead p) - 0.5) * 2 + yOffset (settings r) / 100,
                       vz = vz (forehead p) * 2 + zOffset (settings r) / 100 \<rparr>
              (smoothedPosition r) (Some (smoothing (settings r)))),
         smoothedRotation := Some
           (smooth3D \<lparr> vx = pitch (rotation p) * 0.5,
                       vy = - yaw (rotation p) * 0.8,
                       vz = roll (rotation p) \<rparr>
              (smoothedRotation r) (Some (smoothing (settings r)))),
         smoothedScale :=
           smooth (faceWidth p * 3 * scale (settings r)) (Some (smoothedScale r))
             (Some (smoothing (settings r))) \<rparr>"
  using assms by (simp add: updateHatPosition_def Let_def)

lemma fallback_loaded:
  "hat (createFallbackHat r) = Some (new_Group\<lparr> hat_visible := False \<rparr>)"
  "hatLoaded (createFallbackHat r)"
  "smoothedPosition (createFallbackHat r) = smoothedPosition r"
  "smoothedRotation (createFallbackHat r) = smoothedRotation r"
  "smoothedScale (createFallbackHat r) = smoothedScale r"
  "settings (createFallbackHat r) = settings r"
  by (simp_all add: createFallbackHat_def)

lemma tracked_A_eq:
  "tracked_A =
     \<lparr> hat = Some \<lparr> hat_visible = True,
                    hat_position = \<lparr> vx = 0, vy = 0.4, vz = 0 \<rparr>,
                    hat_rotation = \<lparr> vx = arctan (1 / 6) * 0.5, vy = 0, vz = 0 \<rparr>,
                    hat_scale = \<lparr> vx = 1.1, vy = 1.1, vz = 1.1 \<rparr> \<rparr>,
       hatLoaded = True,
       smoothedPosition = Some \<lparr> vx = 0, vy = 0.4, vz = 0 \<rparr>,
       smoothedRotation = Some \<lparr> vx = arctan (1 / 6) * 0.5, vy = 0, vz = 0 \<rparr>,
       smoothedScale = 1.1,
       settings = \<lparr> scale = 1.0, yOffset = 0, zOffset = 0, smoothing = 0.5 \<rparr> \<rparr>"
  unfolding tracked_A_def update_on_Detected [OF fallback_loaded(1,2)]
  by (simp add: createFallbackHat_def new_HatRenderer_def new_Group_def pose_A_def
      smooth_def smooth3D_def)

lemma tracked_A_fields:
  "hat tracked_A =
     Some \<lparr> hat_visible = True,
            hat_position = \<lparr> vx = 0, vy = 0.4, vz = 0 \<rparr>,
            hat_rotation = \<lparr> vx = arctan (1 / 6) * 0.5, vy = 0, vz = 0 \<rparr>,
            hat_scale = \<lparr> vx = 1.1, vy = 1.1, vz = 1.1 \<rparr> \<rparr>"
  "hatLoaded tracked_A"
  "smoothedPosition tracked_A = Some \<lparr> vx = 0, vy = 0.4, vz = 0 \<rparr>"
  "smoothedRotation tracked_A = Some \<lparr> vx = arctan (1 / 6) * 0.5, vy = 0, vz = 0 \<rparr>"
  "smoothedScale tracked_A = 1.1"
  "settings tracked_A = \<lparr> scale = 1.0, yOffset = 0, zOffset = 0, smoothing = 0.5 \<rparr>"
  by (simp_all add: tracked_A_eq)

lemma tracked_tuned_fields:
  "hat tracked_tuned = hat tracked_A"
  "hatLoaded tracked_tuned"
  "smoothedPosition tracked_tuned = Some \<lparr> vx = 0, vy = 0.4, vz = 0 \<rparr>"
  "smoothedRotation tracked_tuned = Some \<lparr> vx = arctan (1 / 6) * 0.5, vy = 0, vz = 0 \<rparr>"
  "smoothedScale tracked_tuned = 1.1"
  "settings tracked_tuned = \<lparr> scale = 2, yOffset = 10, zOffset = 20, smoothing = 0.25 \<rparr>"
  by (simp_all add: tracked_tuned_def updateSettings_def tracked_A_fields)

text \<open>
  C4. On a detected frame, with the hat loaded, the targets are
  \<open>targetPosition = (-(forehead.x - 0.5) * 2, -(forehead.y - 0.5) * 2 + yOffset/100,
  forehead.z * 2 + zOffset/100)\<close>, \<open>targetRotation = (pitch * 0.5, -yaw * 0.8, roll)\<close> and
  \<open>baseScale = faceWidth * 3 * scale\<close>. Each is smoothed against the previous smoothed
  value with \<open>s = settings.smoothing\<close>: a previous position or rotation \<open>q\<close> gives
  \<open>q * s + target * (1 - s)\<close> on each axis (an absent one gives the target), the scale
  becomes \<open>smoothedScale * s + baseScale * (1 - s)\<close>. The three results are stored and
  written to the hat, which is made visible.
\<close>

theorem updateHatPosition_tracking:
  assumes "hat r = Some h" "hatLoaded r"
  shows "smoothedPosition (updateHatPosition r (Detected p)) =
           Some (smooth3D \<lparr> vx = - (vx (forehead p) - 0.5) * 2,
                            vy = - (vy (forehead p) - 0.5) * 2 + yOffset (settings r) / 100,
                            vz = vz (forehead p) * 2 + zOffset (settings r) / 100 \<rparr>
                   (smoothedPosition r) (Some (smoothing (settings r))))
       \<and> smoothedRotation (updateHatPosition r (Detected p)) =
           Some (smooth3D \<lparr> vx = pitch (rotation p) * 0.5,
                            vy = - yaw (rotation p) * 0.8,
                            vz = roll (rotation p) \<rparr>
                   (smoothedRotation r) (Some (smoothing (settings r))))
       \<and> smoothedScale (updateHatPosition r (Detected p)) =
           smooth (faceWidth p * 3 * scale (settings r)) (Some (smoothedScale r))
             (Some (smoothing (settings r)))
       \<and> smoothedPosition (updateHatPosition r (Detected p)) =
           Some (case smoothedPosition r of
                   None \<Rightarrow>
                     \<lparr> vx = - (vx (forehead p) - 0.5) * 2,
                       vy = - (vy (forehead p) - 0.5) * 2 + yOffset (settings r) / 100,
                       vz = vz (forehead p) * 2 + zOffset (settings r) / 100 \<rparr>
                 | Some q \<Rightarrow>
                     \<lparr> vx = vx q * smoothing (settings r)
                            + - (vx (forehead p) - 0.5) * 2 * (1 - smoothing (settings r)),
                       vy = vy q * smoothing (settings r)
                            + (- (vy (forehead p) - 0.5) * 2 + yOffset (settings r) / 100)
                              * (1 - smoothing (settings r)),
                       vz = vz q * smoothing (settings r)
                            + (vz (forehead p) * 2 + zOffset (settings r) / 100)
                              * (1 - smoothing (settings r)) \<rparr>)
       \<and> smoothedRotation (updateHatPosition r (Detected p)) =
           Some (case smoothedRotation r of
                   None \<Rightarrow>
                     \<lparr> vx = pitch (rotation p) * 0.5,
                       vy = - yaw (rotation p) * 0.8,
                       vz = roll (rotation p) \<rparr>
                 | Some q \<Rightarrow>
                     \<lparr> vx = vx q * smoothing (settings r)
                            + pitch (rotation p) * 0.5 * (1 - smoothing (settings r)),
                       vy = vy q * smoothing (settings r)
                            + - yaw (rotation p) * 0.8 * (1 - smoothing (settings r)),
                       vz = vz q * smoothing (settings r)
                            + roll (rotation p) * (1 - smoothing (settings r)) \<rparr>)
       \<and> smoothedScale (updateHatPosition r (Detected p)) =
           smoothedScale r * smoothing (settings r)
           + faceWidth p * 3 * scale (settings r) * (1 - smoothing (settings r))
       \<and> hat (updateHatPosition r (Detected p)) =
           Some \<lparr> hat_visible = True,
                  hat_position = the (smoothedPosition (updateHatPosition r (Detected p))),
                  hat_rotation = the (smoothedRotation (updateHatPosition r (Detected p))),
                  hat_scale = \<lparr> vx = smoothedScale (updateHatPosition r (Detected p)),
                                vy = smoothedScale (updateHatPosition r (Detected p)),
                                vz = smoothedScale (updateHatPosition r (Detected p)) \<rparr> \<rparr>
       \<and> hatLoaded (updateHatPosition r (Detected p))
       \<and> settings (updateHatPosition r (Detected p)) = settings r"
proof -
  have s3: "smooth3D c prev (Some f) =
              (case prev of None \<Rightarrow> c
               | Some q \<Rightarrow> \<lparr> vx = vx q * f + vx c * (1 - f),
                             vy = vy q * f + vy c * (1 - f),
                             vz = vz q * f + vz c * (1 - f) \<rparr>)" for c prev f
    by (cases prev) (simp_all add: smooth3D_absent smooth3D_present)
  show ?thesis
    using assms(2)
    by (simp add: update_on_Detected [OF assms] s3 smooth_present split: option.splits)
qed

theorem updateHatPosition_tracking_witness:
  "hat tracked_tuned =
     Some \<lparr> hat_visible = True,
            hat_position = \<lparr> vx = 0, vy = 0.4, vz = 0 \<rparr>,
            hat_rotation = \<lparr> vx = arctan (1 / 6) * 0.5, vy = 0, vz = 0 \<rparr>,
            hat_scale = \<lparr> vx = 1.1, vy = 1.1, vz = 1.1 \<rparr> \<rparr>
   \<and> hatLoaded tracked_tuned
   \<and> smoothedPosition (updateHatPosition tracked_tuned (Detected pose_C)) =
       Some \<lparr> vx = 0.15, vy = 0.625, vz = 0.3 \<rparr>
   \<and> smoothedRotation (updateHatPosition tracked_tuned (Detected pose_C)) =
       Some \<lparr> vx = arctan (1 / 6) * 0.5 * 0.25 + 0.375, vy = - 0.6, vz = 0.375 \<rparr>
   \<and> smoothedScale (updateHatPosition tracked_tuned (Detected pose_C)) = 3.875
   \<and> hat (updateHatPosition tracked_tuned (Detected pose_C)) =
       Some \<lparr> hat_visible = True,
              hat_position = \<lparr> vx = 0.15, vy = 0.625, vz = 0.3 \<rparr>,
              hat_rotation = \<lparr> vx = arctan (1 / 6) * 0.5 * 0.25 + 0.375, vy = - 0.6, vz = 0.375 \<rparr>,
              hat_scale = \<lparr> vx = 3.875, vy = 3.875, vz = 3.875 \<rparr> \<rparr>
   \<and> hat (updateHatPosition (createFallbackHat new_HatRenderer) (Detected pose_A)) =
       Some \<lparr> hat_visible = True,
              hat_position = \<lparr> vx = 0, vy = 0.4, vz = 0 \<rparr>,
              hat_rotation = \<lparr> vx = arctan (1 / 6) * 0.5, vy = 0, vz = 0 \<rparr>,
              hat_scale = \<lparr> vx = 1.1, vy = 1.1, vz = 1.1 \<rparr> \<rparr>"
proof -
  define g where "g = the (hat tracked_tuned)"
  have l: "hat tracked_tuned = Some g" "hatLoaded tracked_tuned"
    by (simp_all add: g_def tracked_tuned_fields tracked_A_fields)
  note t = updateHatPosition_tracking [OF l, of pose_C]
  note tp = t [THEN conjunct2, THEN conjunct2, THEN conjunct2, THEN conjunct1]
  note tr = t [THEN conjunct2, THEN conjunct2, THEN conjunct2, THEN conjunct2, THEN conjunct1]
  note ts = t [THEN conjunct2, THEN conjunct2, THEN conjunct2, THEN conjunct2, THEN conjunct2,
    THEN conjunct1]
  note th = t [THEN conjunct2, THEN conjunct2, THEN conjunct2, THEN conjunct2, THEN conjunct2,
    THEN conjunct2, THEN conjunct1]
  have 1: "smoothedPosition (updateHatPosition tracked_tuned (Detected pose_C)) =
       Some \<lparr> vx = 0.15, vy = 0.625, vz = 0.3 \<rparr>"
    using tp by (simp add: tracked_tuned_fields pose_C_def)
  have 2: "smoothedRotation (updateHatPosition tracked_tuned (Detected pose_C)) =
       Some \<lparr> vx = arctan (1 / 6) * 0.5 * 0.25 + 0.375, vy = - 0.6, vz = 0.375 \<rparr>"
    using tr by (simp add: tracked_tuned_fields pose_C_def)
  have 3: "smoothedScale (updateHatPosition tracked_tuned (Detected pose_C)) = 3.875"
    using ts by (simp add: tracked_tuned_fields pose_C_def)
  have 4: "hat (updateHatPosition tracked_tuned (Detected pose_C)) =
           Some \<lparr> hat_visible = True,
                  hat_position = the (smoothedPosition (updateHatPosition tracked_tuned (Detected pose_C))),
                  hat_rotation = the (smoothedRotation (updateHatPosition tracked_tuned (Detected pose_C))),
                  hat_scale = \<lparr> vx = smoothedScale (updateHatPosition tracked_tuned (Detected pose_C)),
                                vy = smoothedScale (updateHatPosition tracked_tuned (Detected pose_C)),
                                vz = smoothedScale (updateHatPosition tracked_tuned (Detected pose_C)) \<rparr> \<rparr>"
    by (rule th)
  have 5: "hat (updateHatPosition (createFallbackHat new_HatRenderer) (Detected pose_A)) =
       Some \<lparr> hat_visible = True,
              hat_position = \<lparr> vx = 0, vy = 0.4, vz = 0 \<rparr>,
              hat_rotation = \<lparr> vx = arctan (1 / 6) * 0.5, vy = 0, vz = 0 \<rparr>,
              hat_scale = \<lparr> vx = 1.1, vy = 1.1, vz = 1.1 \<rparr> \<rparr>"
    using updateHatPosition_tracking [OF fallback_loaded(1,2), of new_HatRenderer pose_A]
    by (simp add: fallback_loaded new_HatRenderer_def pose_A_def smooth_def smooth3D_def)
  show ?thesis
    unfolding 4 unfolding 1 2 3 5
    by (simp add: tracked_tuned_fields tracked_A_fields)
qed

text \<open>
  C2. An undetected frame leaves the smoothed position, rotation and scale (and the
  settings) as they were, and hides the hat when one is loaded (without a loaded hat
  the call changes nothing); a later frame is processed as if the undetected frame had
  not happened, so it smooths from the preserved state.
\<close>

theorem updateHatPosition_undetected:
  "smoothedPosition (updateHatPosition r Undetected) = smoothedPosition r
   \<and> smoothedRotation (updateHatPosition r Undetected) = smoothedRotation r
   \<and> smoothedScale (updateHatPosition r Undetected) = smoothedScale r
   \<and> settings (updateHatPosition r Undetected) = settings r
   \<and> (hat r = Some h \<and> hatLoaded r \<longrightarrow>
        hat (updateHatPosition r Undetected) = Some (h\<lparr> hat_visible := False \<rparr>))
   \<and> (hat r = None \<or> \<not> hatLoaded r \<longrightarrow> updateHatPosition r Undetected = r)
   \<and> updateHatPosition (updateHatPosition r Undetected) faceData = updateHatPosition r faceData
   \<and> (hat r = Some h \<and> hatLoaded r \<longrightarrow>
        smoothedPosition (updateHatPosition (updateHatPosition r Undetected) (Detected p)) =
          Some (smooth3D \<lparr> vx = - (vx (forehead p) - 0.5) * 2,
                           vy = - (vy (forehead p) - 0.5) * 2 + yOffset (settings r) / 100,
                           vz = vz (forehead p) * 2 + zOffset (settings r) / 100 \<rparr>
                  (smoothedPosition r) (Some (smoothing (settings r))))
        \<and> smoothedRotation (updateHatPosition (updateHatPosition r Undetected) (Detected p)) =
          Some (smooth3D \<lparr> vx = pitch (rotation p) * 0.5,
                           vy = - yaw (rotation p) * 0.8,
                           vz = roll (rotation p) \<rparr>
                  (smoothedRotation r) (Some (smoothing (settings r))))
        \<and> smoothedScale (updateHatPosition (updateHatPosition r Undetected) (Detected p)) =
          smooth (faceWidth p * 3 * scale (settings r)) (Some (smoothedScale r))
            (Some (smoothing (settings r))))"
proof (cases "hat r = None \<or> \<not> hatLoaded r")
  case True
  then show ?thesis
    by (auto simp: update_without_hat)
next
  case False
  then obtain g where g: "hat r = Some g" "hatLoaded r"
    by auto
  have u: "updateHatPosition r Undetected = r\<lparr> hat := Some (g\<lparr> hat_visible := False \<rparr>) \<rparr>"
    by (rule update_on_Undetected [OF g])
  have e: "updateHatPosition (r\<lparr> hat := Some (g\<lparr> hat_visible := False \<rparr>) \<rparr>) fd
          = updateHatPosition r fd" for fd
    using g by (cases fd) (simp_all add: updateHatPosition_def Let_def)
  show ?thesis
    unfolding u e using g by (simp add: update_on_Detected [OF g])
qed

theorem updateHatPosition_undetected_witness:
  "map_option hat_visible (hat tracked_A) = Some True
   \<and> hatLoaded tracked_A
   \<and> map_option hat_visible (hat (updateHatPosition tracked_A Undetected)) = Some False
   \<and> smoothedPosition (updateHatPosition tracked_A Undetected) = Some \<lparr> vx = 0, vy = 0.4, vz = 0 \<rparr>
   \<and> smoothedScale (updateHatPosition tracked_A Undetected) = 1.1
   \<and> smoothedScale
        (updateHatPosition (updateHatPosition tracked_A Undetected) (Detected pose_B)) = 1.75
   \<and> updateHatPosition new_HatRenderer Undetected = new_HatRenderer"
proof -
  define g where "g = the (hat tracked_A)"
  have l: "hat tracked_A = Some g" "hatLoaded tracked_A"
    by (simp_all add: g_def tracked_A_fields)
  note t = updateHatPosition_undetected [of tracked_A g "Detected pose_B" pose_B]
  have 1: "hat (updateHatPosition tracked_A Undetected) = Some (g\<lparr> hat_visible := False \<rparr>)"
    using t l by blast
  have 2: "smoothedPosition (updateHatPosition tracked_A Undetected) = smoothedPosition tracked_A"
    using t by blast
  have 3: "smoothedScale (updateHatPosition tracked_A Undetected) = smoothedScale tracked_A"
    using t by blast
  have 4: "smoothedScale
             (updateHatPosition (updateHatPosition tracked_A Undetected) (Detected pose_B)) =
           smooth (faceWidth pose_B * 3 * scale (settings tracked_A))
             (Some (smoothedScale tracked_A)) (Some (smoothing (settings tracked_A)))"
    using t l by blast
  have "hat new_HatRenderer = None"
    by (simp add: new_HatRenderer_def)
  then have 5: "updateHatPosition new_HatRenderer Undetected = new_HatRenderer"
    using updateHatPosition_undetected [of new_HatRenderer] by blast
  show ?thesis
    unfolding 1 2 3 4 5
    by (simp add: tracked_A_fields pose_B_def pose_A_def smooth_def)
qed

text \<open>
  C1 (as the code has it). On the first detected frame in the startup state of the
  constructor (no smoothed position, no smoothed rotation, smoothed scale 1), position
  and rotation snap to their targets, and the scale is the blend
  \<open>1 * smoothing + baseScale * (1 - smoothing)\<close> of the startup scale 1 with
  \<open>baseScale = faceWidth * 3 * scale\<close>; it is \<open>baseScale\<close> when the smoothing is 0.
\<close>

theorem first_frame_scale_blend:
  assumes "hat r = Some h" "hatLoaded r"
    and "smoothedPosition r = smoothedPosition new_HatRenderer"
    and "smoothedRotation r = smoothedRotation new_HatRenderer"
    and "smoothedScale r = smoothedScale new_HatRenderer"
  shows "smoothedScale (updateHatPosition r (Detected p)) =
           1 * smoothing (settings r)
           + faceWidth p * 3 * scale (settings r) * (1 - smoothing (settings r))
       \<and> map_option hat_scale (hat (updateHatPosition r (Detected p))) =
           Some \<lparr> vx = smoothedScale (updateHatPosition r (Detected p)),
                  vy = smoothedScale (updateHatPosition r (Detected p)),
                  vz = smoothedScale (updateHatPosition r (Detected p)) \<rparr>
       \<and> (smoothing (settings r) = 0 \<longrightarrow>
            smoothedScale (updateHatPosition r (Detected p)) = faceWidth p * 3 * scale (settings r))
       \<and> smoothedPosition (updateHatPosition r (Detected p)) =
           Some \<lparr> vx = - (vx (forehead p) - 0.5) * 2,
                  vy = - (vy (forehead p) - 0.5) * 2 + yOffset (settings r) / 100,
                  vz = vz (forehead p) * 2 + zOffset (settings r) / 100 \<rparr>
       \<and> smoothedRotation (updateHatPosition r (Detected p)) =
           Some \<lparr> vx = pitch (rotation p) * 0.5,
                  vy = - yaw (rotation p) * 0.8,
                  vz = roll (rotation p) \<rparr>"
  using assms(3-5)
  by (simp add: update_on_Detected [OF assms(1,2)] new_HatRenderer_def
      smooth_def smooth3D_def Let_def)

theorem first_frame_scale_blend_witness:
  "smoothedScale (updateHatPosition (createFallbackHat new_HatRenderer) (Detected pose_A)) = 1.1
   \<and> smoothedScale
        (updateHatPosition
           (updateSettings (createFallbackHat new_HatRenderer)
              \<lparr> new_scale = None, new_yOffset = None, new_zOffset = None, new_smoothing = Some 0 \<rparr>)
           (Detected pose_A)) = 1.2"
  using first_frame_scale_blend [OF fallback_loaded(1,2), of new_HatRenderer pose_A]
    first_frame_scale_blend [of "updateSettings (createFallbackHat new_HatRenderer)
              \<lparr> new_scale = None, new_yOffset = None, new_zOffset = None, new_smoothing = Some 0 \<rparr>"
         "new_Group\<lparr> hat_visible := False \<rparr>" pose_A]
  by (simp add: fallback_loaded updateSettings_def new_HatRenderer_def pose_A_def)

text \<open>
  C1 (as claimed) fails: with the constructor's smoothing 0.5, the first frame of
  scenario A gives the scale 1.1, not the base scale 1.2.
\<close>

theorem first_frame_scale_counterexample:
  "smoothedPosition (createFallbackHat new_HatRenderer) = None
   \<and> smoothedRotation (createFallbackHat new_HatRenderer) = None
   \<and> smoothedScale (updateHatPosition (createFallbackHat new_HatRenderer) (Detected pose_A))
       \<noteq> faceWidth pose_A * 3 * scale (settings (createFallbackHat new_HatRenderer))"
  unfolding update_on_Detected [OF fallback_loaded(1,2)]
  by (simp add: createFallbackHat_def new_HatRenderer_def pose_A_def smooth_def)

end
